theory Spec2Isabelle
  imports Complex_Main "HOL-Library.Sublist"
begin

section \<open>Errors\<close>

text \<open>
  The services raise plain \<open>Error\<close> objects, the distinguished \<open>RateLimitError\<close>
  (rate-limiter.ts, \<open>code = 'RATE_LIMITED'\<close>) and, from the platform, \<open>TypeError\<close>.
  Each carries its message.
\<close>

datatype error = Error string | RateLimitError string | TypeError string

section \<open>RateLimiter (rate-limiter.ts)\<close>

text \<open>
  The class keeps four \<open>Map<string, number>\<close> fields. Token counts, capacities and
  rates are JavaScript numbers, idealised here as reals; \<open>Date.now()\<close> is an integer
  number of milliseconds and is passed in explicitly at every place the source reads it.
\<close>

record RateLimiter =
  tokens :: "string \<rightharpoonup> real"
  maxTokens :: "string \<rightharpoonup> real"
  lastRefill :: "string \<rightharpoonup> int"
  refillRate :: "string \<rightharpoonup> real"

definition new_RateLimiter :: RateLimiter where
  "new_RateLimiter =
     \<lparr>tokens = Map.empty, maxTokens = Map.empty, lastRefill = Map.empty, refillRate = Map.empty\<rparr>"

text \<open>\<open>m.get(k) || d\<close>: the default is taken when the key is absent and also when the
  stored number is \<open>0\<close> (falsy).\<close>

definition get_or :: "(string \<rightharpoonup> 'a::zero) \<Rightarrow> string \<Rightarrow> 'a \<Rightarrow> 'a" where
  "get_or m k d = (case m k of None \<Rightarrow> d | Some v \<Rightarrow> if v = 0 then d else v)"

text \<open>\<open>configure\<close>. With \<open>windowMs = 0\<close> JavaScript divides by zero and stores
  \<open>Infinity\<close> (or \<open>NaN\<close>); every call in the repository passes 1000 or 60000, and the
  statements below assume a positive window.\<close>

definition configure :: "RateLimiter \<Rightarrow> string \<Rightarrow> real \<Rightarrow> real \<Rightarrow> int \<Rightarrow> RateLimiter" where
  "configure s operation maxRequests windowMs now =
     s\<lparr>maxTokens := (maxTokens s)(operation \<mapsto> maxRequests),
       tokens := (tokens s)(operation \<mapsto> maxRequests),
       refillRate := (refillRate s)(operation \<mapsto> maxRequests / (windowMs / 1000)),
       lastRefill := (lastRefill s)(operation \<mapsto> now)\<rparr>"

text \<open>
  \<open>acquire\<close> runs in two parts separated by \<open>await this.wait(waitTime)\<close>. The first
  part either consumes a token or asks to be suspended, remembering the two constants
  \<open>maxTokens\<close> and \<open>refillRate\<close> it read on entry; the second part runs on whatever
  the limiter holds when the caller is resumed.
\<close>

datatype acquire_step =
    Admitted RateLimiter
  | Suspended RateLimiter int real real

definition acquire_begin :: "RateLimiter \<Rightarrow> string \<Rightarrow> int \<Rightarrow> error + acquire_step" where
  "acquire_begin s operation now =
     (case (maxTokens s operation, refillRate s operation) of
        (Some mx, Some rr) \<Rightarrow>
          if mx = 0 \<or> rr = 0
          then Inl (Error (''Rate limiter not configured for operation: '' @ operation))
          else
            let lastR = get_or (lastRefill s) operation now;
                elapsed = now - lastR;
                s1 = (if elapsed > 0
                      then let currentTokens = get_or (tokens s) operation 0;
                               tokensToAdd = (real_of_int elapsed / 1000) * rr;
                               newTokens = min mx (currentTokens + tokensToAdd)
                           in s\<lparr>tokens := (tokens s)(operation \<mapsto> newTokens),
                                lastRefill := (lastRefill s)(operation \<mapsto> now)\<rparr>
                      else s);
                currentTokens = get_or (tokens s1) operation 0
            in if currentTokens < 1
               then Inr (Suspended s1 \<lceil>(1 - currentTokens) / rr * 1000\<rceil> mx rr)
               else Inr (Admitted (s1\<lparr>tokens := (tokens s1)(operation \<mapsto> currentTokens - 1)\<rparr>))
      | _ \<Rightarrow> Inl (Error (''Rate limiter not configured for operation: '' @ operation)))"

definition acquire_resume :: "RateLimiter \<Rightarrow> string \<Rightarrow> real \<Rightarrow> real \<Rightarrow> int \<Rightarrow> RateLimiter" where
  "acquire_resume s operation mx rr now2 =
     (let newTokens = min mx rr
      in s\<lparr>tokens := (tokens s)(operation \<mapsto> newTokens - 1),
           lastRefill := (lastRefill s)(operation \<mapsto> now2)\<rparr>)"

text \<open>A whole \<open>acquire\<close> call with nothing else running during the wait: \<open>now\<close> is the
  clock on entry and \<open>now2\<close> the clock read after the wait. The result also reports the
  wait that was requested, if any.\<close>

definition acquire :: "RateLimiter \<Rightarrow> string \<Rightarrow> int \<Rightarrow> int \<Rightarrow> error + (RateLimiter \<times> int option)" where
  "acquire s operation now now2 =
     (case acquire_begin s operation now of
        Inl e \<Rightarrow> Inl e
      | Inr (Admitted s') \<Rightarrow> Inr (s', None)
      | Inr (Suspended s1 waitTime mx rr) \<Rightarrow>
          Inr (acquire_resume s1 operation mx rr now2, Some waitTime))"

definition getRemainingTokens :: "RateLimiter \<Rightarrow> string \<Rightarrow> int \<Rightarrow> int \<times> RateLimiter" where
  "getRemainingTokens s operation now =
     (case (maxTokens s operation, refillRate s operation) of
        (Some mx, Some rr) \<Rightarrow>
          if mx = 0 \<or> rr = 0 then (0, s)
          else
            let lastR = get_or (lastRefill s) operation now;
                elapsed = now - lastR;
                s1 = (if elapsed > 0
                      then let currentTokens = get_or (tokens s) operation 0;
                               tokensToAdd = (real_of_int elapsed / 1000) * rr;
                               newTokens = min mx (currentTokens + tokensToAdd)
                           in s\<lparr>tokens := (tokens s)(operation \<mapsto> newTokens),
                                lastRefill := (lastRefill s)(operation \<mapsto> now)\<rparr>
                      else s);
                tks = get_or (tokens s1) operation 0
            in (max 0 \<lfloor>tks\<rfloor>, s1)
      | _ \<Rightarrow> (0, s))"

text \<open>A run of \<open>n\<close> back-to-back \<open>acquire\<close> calls, all entered at clock \<open>now\<close>; a call
  that had to wait is resumed at \<open>now\<close> plus its wait.\<close>

fun acquire_n :: "nat \<Rightarrow> RateLimiter \<Rightarrow> string \<Rightarrow> int \<Rightarrow> error + RateLimiter" where
  "acquire_n 0 s operation now = Inr s"
| "acquire_n (Suc n) s operation now =
     (case acquire_n n s operation now of
        Inl e \<Rightarrow> Inl e
      | Inr s' \<Rightarrow>
          (case acquire_begin s' operation now of
             Inl e \<Rightarrow> Inl e
           | Inr (Admitted s'') \<Rightarrow> Inr s''
           | Inr (Suspended s1 waitTime mx rr) \<Rightarrow>
               Inr (acquire_resume s1 operation mx rr (now + waitTime))))"


subsection \<open>Auxiliary notions for the limiter\<close>

text \<open>The refill block that \<open>acquire\<close> and \<open>getRemainingTokens\<close> both start with, for a
  class whose capacity \<open>mx\<close> and rate \<open>rr\<close> have been read.\<close>

definition refilled :: "RateLimiter \<Rightarrow> string \<Rightarrow> real \<Rightarrow> real \<Rightarrow> int \<Rightarrow> RateLimiter" where
  "refilled s operation mx rr now =
     (if now - get_or (lastRefill s) operation now > 0
      then s\<lparr>tokens := (tokens s)(operation \<mapsto>
                 min mx (get_or (tokens s) operation 0
                         + (real_of_int (now - get_or (lastRefill s) operation now) / 1000) * rr)),
             lastRefill := (lastRefill s)(operation \<mapsto> now)\<rparr>
      else s)"


text \<open>
  The limiter together with the \<open>acquire\<close> calls that are suspended in
  \<open>await this.wait(waitTime)\<close>, each with its class and the two constants it read on
  entry. \<open>reachable\<close> holds of everything the program can get to from a fresh instance:
  \<open>configure\<close> with positive arguments, \<open>getRemainingTokens\<close>, the first part of an
  \<open>acquire\<close> call (which is admitted or becomes suspended), and the resumption of any
  suspended call, in any order and at any clock readings. The arguments of \<open>configure\<close>
  are positive finite numbers, as in every call the services make with constants.
\<close>

type_synonym suspended_call = "string \<times> real \<times> real"

inductive reachable :: "RateLimiter \<Rightarrow> suspended_call list \<Rightarrow> bool" where
  reach_new: "reachable new_RateLimiter []"
| reach_configure:
    "reachable s ps \<Longrightarrow> 0 < maxRequests \<Longrightarrow> 0 < windowMs
       \<Longrightarrow> reachable (configure s operation maxRequests windowMs now) ps"
| reach_peek:
    "reachable s ps \<Longrightarrow> reachable (snd (getRemainingTokens s operation now)) ps"
| reach_admit:
    "reachable s ps \<Longrightarrow> acquire_begin s operation now = Inr (Admitted s')
       \<Longrightarrow> reachable s' ps"
| reach_suspend:
    "reachable s ps \<Longrightarrow> acquire_begin s operation now = Inr (Suspended s1 waitTime mx rr)
       \<Longrightarrow> reachable s1 ((operation, mx, rr) # ps)"
| reach_resume:
    "reachable s ps \<Longrightarrow> (operation, mx, rr) \<in> set ps
       \<Longrightarrow> reachable (acquire_resume s operation mx rr now2) (remove1 (operation, mx, rr) ps)"

text \<open>The same, except that no class is configured while an \<open>acquire\<close> call of that class
  is suspended.\<close>

inductive steady :: "RateLimiter \<Rightarrow> suspended_call list \<Rightarrow> bool" where
  steady_new: "steady new_RateLimiter []"
| steady_configure:
    "steady s ps \<Longrightarrow> 0 < maxRequests \<Longrightarrow> 0 < windowMs
       \<Longrightarrow> operation \<notin> set (map fst ps)
       \<Longrightarrow> steady (configure s operation maxRequests windowMs now) ps"
| steady_peek:
    "steady s ps \<Longrightarrow> steady (snd (getRemainingTokens s operation now)) ps"
| steady_admit:
    "steady s ps \<Longrightarrow> acquire_begin s operation now = Inr (Admitted s')
       \<Longrightarrow> steady s' ps"
| steady_suspend:
    "steady s ps \<Longrightarrow> acquire_begin s operation now = Inr (Suspended s1 waitTime mx rr)
       \<Longrightarrow> steady s1 ((operation, mx, rr) # ps)"
| steady_resume:
    "steady s ps \<Longrightarrow> (operation, mx, rr) \<in> set ps
       \<Longrightarrow> steady (acquire_resume s operation mx rr now2) (remove1 (operation, mx, rr) ps)"

text \<open>The limiter of the content service (\<open>configure('fetch', 20, 60000)\<close>) after 20 calls
  entered in the same millisecond, and after the 21st call has waited and resumed.\<close>

definition drained_fetch :: RateLimiter where
  "drained_fetch =
     \<lparr>tokens = [''fetch'' \<mapsto> 0], maxTokens = [''fetch'' \<mapsto> 20],
      lastRefill = [''fetch'' \<mapsto> 1700000000000], refillRate = [''fetch'' \<mapsto> 1 / 3]\<rparr>"

definition overdrawn_fetch :: RateLimiter where
  "overdrawn_fetch =
     \<lparr>tokens = [''fetch'' \<mapsto> - 2 / 3], maxTokens = [''fetch'' \<mapsto> 20],
      lastRefill = [''fetch'' \<mapsto> 1700000003000], refillRate = [''fetch'' \<mapsto> 1 / 3]\<rparr>"





section \<open>JavaScript strings\<close>

text \<open>
  A string is a list of characters, one element for each UTF-16 code unit that
  \<open>length\<close>, \<open>substring\<close> and \<open>lastIndexOf\<close> count; the model covers code units up to
  255. \<open>substring(0, n)\<close> is \<open>take n\<close>.
\<close>

text \<open>The white space that \<open>trim\<close> and \<open>parseInt\<close> skip (tab, line feed, vertical tab,
  form feed, carriage return, space, no-break space).\<close>

definition is_ws :: "char \<Rightarrow> bool" where
  "is_ws c = (c \<in> set [CHR 0x09, CHR 0x0A, CHR 0x0B, CHR 0x0C, CHR 0x0D, CHR 0x20, CHR 0xA0])"

definition trim :: "string \<Rightarrow> string" where
  "trim s = rev (dropWhile is_ws (rev (dropWhile is_ws s)))"

text \<open>\<open>s.includes(sub)\<close>, \<open>s.startsWith(p)\<close> is \<open>prefix p s\<close>, \<open>s.endsWith(e)\<close>.\<close>

fun str_includes :: "string \<Rightarrow> string \<Rightarrow> bool" where
  "str_includes [] sub = (sub = [])"
| "str_includes (c # cs) sub = (prefix sub (c # cs) \<or> str_includes cs sub)"

definition endsWith :: "string \<Rightarrow> string \<Rightarrow> bool" where
  "endsWith s e = prefix (rev e) (rev s)"

text \<open>\<open>s.split(c)\<close> for a one-character separator: never an empty array.\<close>

fun split_on :: "char \<Rightarrow> string \<Rightarrow> string list" where
  "split_on c [] = [[]]"
| "split_on c (x # xs) =
     (if x = c then [] # split_on c xs
      else (case split_on c xs of
              w # ws \<Rightarrow> (x # w) # ws
            | [] \<Rightarrow> [[x]]))"

text \<open>\<open>a || d\<close> on an optional string: the default replaces \<open>undefined\<close> and \<open>''\<close>.\<close>

definition str_or :: "string option \<Rightarrow> string \<Rightarrow> string" where
  "str_or v d = (case v of None \<Rightarrow> d | Some s \<Rightarrow> if s = [] then d else s)"

definition truthy_str :: "string option \<Rightarrow> bool" where
  "truthy_str v = (case v of None \<Rightarrow> False | Some s \<Rightarrow> s \<noteq> [])"

subsection \<open>Numbers and their decimal form\<close>

definition is_digit :: "char \<Rightarrow> bool" where
  "is_digit c = (48 \<le> (of_char c :: nat) \<and> (of_char c :: nat) \<le> 57)"

definition digit_val :: "char \<Rightarrow> int" where
  "digit_val c = int (of_char c) - 48"

definition digits_val :: "string \<Rightarrow> int" where
  "digits_val ds = foldl (\<lambda>acc c. 10 * acc + digit_val c) 0 ds"

text \<open>
  A JavaScript number as \<open>parseInt\<close> can return it: \<open>NaN\<close>, an integer-valued double
  (\<open>Num\<close>, which also stands for \<open>-0\<close>), or one of the infinities.
\<close>

datatype js_number = NaN | Num int | PosInfinity | NegInfinity

text \<open>The number of binary digits of a natural number.\<close>

fun bit_length :: "nat \<Rightarrow> nat" where
  "bit_length n = (if n = 0 then 0 else Suc (bit_length (n div 2)))"

declare bit_length.simps [simp del]

text \<open>
  The double nearest to a natural number (IEEE 754 binary64, ties to the even significand):
  numbers below \<open>2^53\<close> are doubles; above, the 53 leading binary digits are kept and the
  rest rounded. \<open>None\<close> is the overflow to \<open>Infinity\<close>.
\<close>

definition round_to_double :: "nat \<Rightarrow> nat option" where
  "round_to_double v =
     (if v < 2 ^ 53 then Some v
      else let e = bit_length v - 53;
               q = v div 2 ^ e;
               r = v mod 2 ^ e;
               h = 2 ^ (e - 1);
               q' = (if h < r \<or> (r = h \<and> odd q) then q + 1 else q)
           in if 2 ^ 1024 \<le> q' * 2 ^ e then None else Some (q' * 2 ^ e))"

text \<open>\<open>parseInt(s, 10)\<close>: leading white space, an optional sign, then the longest run of
  decimal digits, read as an integer and rounded to the nearest double (as V8 does for any
  number of digits); \<open>NaN\<close> when there is no digit.\<close>

definition parseInt :: "string \<Rightarrow> js_number" where
  "parseInt s =
     (let t = dropWhile is_ws s;
          neg = (case t of c # _ \<Rightarrow> c = CHR ''-'' | [] \<Rightarrow> False);
          rest = (case t of c # r \<Rightarrow> if c = CHR ''-'' \<or> c = CHR ''+'' then r else t | [] \<Rightarrow> t);
          ds = takeWhile is_digit rest
      in if ds = [] then NaN
         else (case round_to_double (nat (digits_val ds)) of
                 None \<Rightarrow> if neg then NegInfinity else PosInfinity
               | Some d \<Rightarrow> Num (if neg then - int d else int d)))"

definition digit_char :: "nat \<Rightarrow> char" where
  "digit_char d =
     (if d = 0 then CHR ''0'' else if d = 1 then CHR ''1'' else if d = 2 then CHR ''2''
      else if d = 3 then CHR ''3'' else if d = 4 then CHR ''4'' else if d = 5 then CHR ''5''
      else if d = 6 then CHR ''6'' else if d = 7 then CHR ''7'' else if d = 8 then CHR ''8''
      else CHR ''9'')"

fun show_nat :: "nat \<Rightarrow> string" where
  "show_nat n = (if n < 10 then [digit_char n] else show_nat (n div 10) @ [digit_char (n mod 10)])"

declare show_nat.simps [simp del]

text \<open>\<open>String(n)\<close>, \<open>n.toString()\<close> and template interpolation of an integer whose magnitude is
  at most \<open>2^53\<close>: its decimal digits.\<close>

definition show_int :: "int \<Rightarrow> string" where
  "show_int i = (if i < 0 then CHR ''-'' # show_nat (nat (- i)) else show_nat (nat i))"

text \<open>The same for any number. Beyond \<open>2^53\<close> the platform prints the shortest digit string
  that reads back as the same double, in exponent notation from \<open>1e21\<close> on; that printer is
  the parameter \<open>big\<close>.\<close>

definition show_number :: "(int \<Rightarrow> string) \<Rightarrow> js_number \<Rightarrow> string" where
  "show_number big v =
     (case v of
        NaN \<Rightarrow> ''NaN''
      | PosInfinity \<Rightarrow> ''Infinity''
      | NegInfinity \<Rightarrow> ''-Infinity''
      | Num i \<Rightarrow> if \<bar>i\<bar> \<le> 2 ^ 53 then show_int i else big i)"

section \<open>The fetch primitive (web-search/http-utils.ts)\<close>

text \<open>
  A response as the services read it: status line, final URL, \<open>headers.get\<close>, the body
  text, and the value \<open>json()\<close> yields (\<open>None\<close> when the body is not JSON).
\<close>

record 'j response =
  status :: int
  statusText :: string
  url :: string
  headers_get :: "string \<Rightarrow> string option"
  text_body :: string
  json :: "'j option"

definition ok :: "'j response \<Rightarrow> bool" where
  "ok r = (200 \<le> status r \<and> status r \<le> 299)"

text \<open>What a rejected call carries: the error's \<open>name\<close> decides how the services report
  it. \<open>AbortError\<close> is what the abort signal of the timeout produces.\<close>

datatype failure =
    Err error
  | AbortError string
  | FetchError string

fun failure_message :: "failure \<Rightarrow> string" where
  "failure_message (Err (Error m)) = m"
| "failure_message (Err (RateLimitError m)) = m"
| "failure_message (Err (TypeError m)) = m"
| "failure_message (AbortError m) = m"
| "failure_message (FetchError m) = m"

text \<open>A request is the URL and the header set sent with it. The network is a function from
  requests to outcomes, supplied from outside; a timeout is the outcome \<open>Inl (AbortError _)\<close>.\<close>

record request =
  req_url :: string
  req_headers :: "(string \<times> string) list"

definition DEFAULT_FETCH_HEADERS :: "(string \<times> string) list" where
  "DEFAULT_FETCH_HEADERS =
     [(''User-Agent'', ''Mozilla/5.0 (Windows NT 10.0; Win64; x64) AppleWebKit/537.36 (KHTML, like Gecko) Chrome/120.0.0.0 Safari/537.36''),
      (''Accept'', ''text/html,application/xhtml+xml,application/xml;q=0.9,image/webp,*/*;q=0.8''),
      (''Accept-Language'', ''en-US,en;q=0.9'')]"

text \<open>Every operation returns its result together with the requests it sent, in order.\<close>

definition fetchWithTimeout ::
  "(request \<Rightarrow> failure + 'j response) \<Rightarrow> string \<Rightarrow> (string \<times> string) list option
     \<Rightarrow> (failure + 'j response) \<times> request list" where
  "fetchWithTimeout net u hs =
     (let rq = \<lparr>req_url = u, req_headers = (case hs of None \<Rightarrow> DEFAULT_FETCH_HEADERS | Some h \<Rightarrow> h)\<rparr>
      in (net rq, [rq]))"

text \<open>\<open>cleanUrl\<close> and \<open>new URL(..)\<close> use the platform's URL class, supplied as two functions:
  \<open>href u\<close> is \<open>new URL(u).href\<close> and \<open>resolve l b\<close> is \<open>new URL(l, b).href\<close>, with \<open>None\<close>
  where the constructor throws.\<close>

definition cleanUrl :: "(string \<Rightarrow> string option) \<Rightarrow> string \<Rightarrow> string" where
  "cleanUrl href u = (if u = [] then u else (case href u of Some h \<Rightarrow> h | None \<Rightarrow> u))"

definition follow300Redirect ::
  "(string \<Rightarrow> string \<Rightarrow> string option) \<Rightarrow> (request \<Rightarrow> failure + 'j response)
     \<Rightarrow> 'j response \<Rightarrow> string \<Rightarrow> (failure + 'j response) \<times> request list" where
  "follow300Redirect resolve net response originalUrl =
     (if status response \<noteq> 300 then (Inr response, [])
      else (case headers_get response ''Location'' of
              None \<Rightarrow> (Inl (Err (Error ''HTTP 300: Multiple Choices - No Location header provided'')), [])
            | Some location \<Rightarrow>
                if location = []
                then (Inl (Err (Error ''HTTP 300: Multiple Choices - No Location header provided'')), [])
                else (case resolve location originalUrl of
                        None \<Rightarrow> (Inl (Err (TypeError ''Invalid URL'')), [])
                      | Some redirectUrl \<Rightarrow> fetchWithTimeout net redirectUrl None)))"

section \<open>The search proxy (searxng.service.ts)\<close>

text \<open>What an operation did besides computing its result: it suspended the caller for a
  number of milliseconds, or it sent a request.\<close>

datatype event = Suspend int | Request request

record SearXNGSearchParams =
  searxng_base_url :: string
  query :: string
  format :: "string option"
  categories :: "string option"
  language :: "string option"
  pageno :: "int option"
  time_range :: "string option"
  safesearch :: "int option"
  max_results :: "int option"

record SearXNGRawResult =
  raw_title :: "string option"
  raw_url :: "string option"
  raw_content :: "string option"
  raw_snippet :: "string option"

record SearXNGResponse =
  results :: "SearXNGRawResult list option"

record SearXNGResult =
  res_title :: string
  res_url :: string
  res_snippet :: string

definition normalizeBaseUrl :: "string \<Rightarrow> string" where
  "normalizeBaseUrl baseUrl =
     (if baseUrl = [] then baseUrl
      else rev (dropWhile (\<lambda>c. c = CHR ''/'') (rev (trim baseUrl))))"

text \<open>The query parameters \<open>buildSearchUrl\<close> sets, in the order it sets them.\<close>

definition search_query_params :: "SearXNGSearchParams \<Rightarrow> (string \<times> string) list" where
  "search_query_params params =
     [(''q'', query params), (''format'', str_or (format params) ''json'')]
     @ (if truthy_str (categories params) then [(''categories'', str_or (categories params) [])] else [])
     @ (if truthy_str (language params) then [(''language'', str_or (language params) [])] else [])
     @ (case pageno params of None \<Rightarrow> [] | Some n \<Rightarrow> [(''pageno'', show_int n)])
     @ (if truthy_str (time_range params) then [(''time_range'', str_or (time_range params) [])] else [])
     @ (case safesearch params of None \<Rightarrow> [] | Some n \<Rightarrow> [(''safesearch'', show_int n)])"

text \<open>\<open>mkurl p qs\<close> stands for \<open>new URL(p)\<close>, \<open>searchParams.set\<close> for each pair of \<open>qs\<close>
  and \<open>toString()\<close>; \<open>None\<close> where the constructor throws.\<close>

definition buildSearchUrl ::
  "(string \<Rightarrow> (string \<times> string) list \<Rightarrow> string option) \<Rightarrow> string \<Rightarrow> SearXNGSearchParams
     \<Rightarrow> string option" where
  "buildSearchUrl mkurl baseUrl params =
     (let base = normalizeBaseUrl baseUrl;
          searchPath = (if endsWith base ''/search'' then base else base @ ''/search'')
      in mkurl searchPath (search_query_params params))"

definition normalize_result :: "SearXNGRawResult \<Rightarrow> SearXNGResult" where
  "normalize_result r =
     \<lparr>res_title = take 500 (str_or (raw_title r) ''No title''),
      res_url = str_or (raw_url r) [],
      res_snippet = take 500 (str_or (raw_content r) (str_or (raw_snippet r) []))\<rparr>"

text \<open>The body of the \<open>try\<close> block of \<open>search\<close> after \<open>fetch\<close> has settled, with the
  \<open>catch\<close> clause applied to what it throws.\<close>

definition search_settle ::
  "(failure + SearXNGResponse response) \<Rightarrow> int \<Rightarrow> failure + SearXNGResult list" where
  "search_settle outcome mx =
     (case outcome of
        Inl (AbortError m) \<Rightarrow> Inl (Err (Error ''SearXNG request timed out''))
      | Inl f \<Rightarrow> Inl f
      | Inr response \<Rightarrow>
          if ok response
          then (let contentType = str_or (headers_get response ''content-type'') [] in
                if str_includes contentType ''application/json''
                then (case json response of
                        None \<Rightarrow> Inl (FetchError ''invalid json response body'')
                      | Some data \<Rightarrow>
                          Inr (filter (\<lambda>r. res_url r \<noteq> [])
                                 (map normalize_result
                                    (take (nat mx) (case results data of None \<Rightarrow> [] | Some rs \<Rightarrow> rs)))))
                else Inl (Err (Error (''SearXNG returned non-JSON content type: '' @ contentType))))
          else if status response = 403
          then Inl (Err (Error ''SearXNG returned 403. The instance may not allow JSON format or may block this client.''))
          else if status response = 429
          then Inl (Err (RateLimitError ''SearXNG instance rate limit exceeded (HTTP 429). Try again later.''))
          else Inl (Err (Error (''SearXNG returned '' @ show_int (status response) @ '': ''
                                 @ statusText response))))"

text \<open>
  \<open>search\<close>. The clock is read at \<open>t1\<close> by the pre-check, at \<open>t2\<close> on entry to \<open>acquire\<close>
  and at \<open>t3\<close> after a wait inside it. The result is the outcome, the limiter afterwards
  and the events in order.
\<close>

definition search ::
  "(string \<Rightarrow> (string \<times> string) list \<Rightarrow> string option)
     \<Rightarrow> (request \<Rightarrow> failure + SearXNGResponse response)
     \<Rightarrow> RateLimiter \<Rightarrow> SearXNGSearchParams \<Rightarrow> int \<Rightarrow> int \<Rightarrow> int
     \<Rightarrow> (failure + SearXNGResult list) \<times> RateLimiter \<times> event list" where
  "search mkurl net rl params t1 t2 t3 =
     (if trim (searxng_base_url params) = []
      then (Inl (Err (Error ''searxng_base_url is required and must be a non-empty string'')), rl, [])
      else if trim (query params) = []
      then (Inl (Err (Error ''query is required and must be a non-empty string'')), rl, [])
      else
        (let peek = getRemainingTokens rl ''searxng'' t1 in
         if fst peek < 1
         then (Inl (Err (RateLimitError ''SearXNG search rate limited (30 requests per minute). Try again later or check get_rate_limit_status for remaining tokens.'')),
               snd peek, [])
         else
           (case acquire (snd peek) ''searxng'' t2 t3 of
              Inl e \<Rightarrow> (Inl (Err e), snd peek, [])
            | Inr (rl2, w) \<Rightarrow>
                (let waited = (case w of None \<Rightarrow> [] | Some ms \<Rightarrow> [Suspend ms]) in
                 case buildSearchUrl mkurl (searxng_base_url params) params of
                   None \<Rightarrow> (Inl (Err (TypeError ''Invalid URL'')), rl2, waited)
                 | Some searchUrl \<Rightarrow>
                     (let mx = min (max 1 (case max_results params of
                                             None \<Rightarrow> 10
                                           | Some n \<Rightarrow> if n = 0 then 10 else n)) 50;
                          rq = \<lparr>req_url = searchUrl,
                                req_headers = [(''Accept'', ''application/json''),
                                               (''User-Agent'', ''CQL-Studio-Server/1.0 (SearXNG proxy)'')]\<rparr>
                      in (search_settle (net rq) mx, rl2, waited @ [Request rq]))))))"

text \<open>The constructor of the service configures its class on the limiter it is given.\<close>

definition new_SearXNGService :: "RateLimiter \<Rightarrow> int \<Rightarrow> RateLimiter" where
  "new_SearXNGService rl now = configure rl ''searxng'' 30 60000 now"

text \<open>The limiter of the search proxy once its 30 tokens have been spent.\<close>

definition drained_searxng :: RateLimiter where
  "drained_searxng =
     \<lparr>tokens = [''searxng'' \<mapsto> 0], maxTokens = [''searxng'' \<mapsto> 30],
      lastRefill = [''searxng'' \<mapsto> 1700000000000], refillRate = [''searxng'' \<mapsto> 1 / 2]\<rparr>"

section \<open>Search with header-driven limits (WebSearchService.searchWeb)\<close>

record BraveRawResult =
  b_title :: "string option"
  b_url :: "string option"
  b_description :: "string option"

text \<open>\<open>web_results\<close> is \<open>data.web.results\<close>, \<open>None\<close> when \<open>data.web\<close> or the list is missing.\<close>

record BraveData =
  web_results :: "BraveRawResult list option"

record SearchResult =
  sr_title :: string
  sr_url :: string
  sr_snippet :: string

text \<open>\<open>header.split(',').map(v => parseInt(v.trim(), 10))\<close>\<close>

definition header_numbers :: "string \<Rightarrow> js_number list" where
  "header_numbers h = map (\<lambda>v. parseInt (trim v)) (split_on CHR '','' h)"

text \<open>\<open>limits[0]\<close>; \<open>split\<close> never returns an empty array.\<close>

definition first_number :: "js_number list \<Rightarrow> js_number" where
  "first_number ns = (case ns of [] \<Rightarrow> NaN | n # _ \<Rightarrow> n)"

text \<open>
  Only the \<open>X-RateLimit-Limit\<close> header changes the limiter; the other two headers are
  logged. \<open>now\<close> is the clock that \<open>configure\<close> reads. The guard
  \<open>perSecondLimit && perSecondLimit > 0\<close> lets the positive numbers and \<open>Infinity\<close>
  through. The result \<open>None\<close> stands for the limiter after
  \<open>configure('search', Infinity, 1000)\<close>, which the real-valued record does not represent
  (the first field of the header has more than 308 digits).
\<close>

definition updateRateLimiterFromBraveHeaders ::
  "RateLimiter \<Rightarrow> 'j response \<Rightarrow> int \<Rightarrow> RateLimiter option" where
  "updateRateLimiterFromBraveHeaders rl response now =
     (case headers_get response ''X-RateLimit-Limit'' of
        None \<Rightarrow> Some rl
      | Some limitHeader \<Rightarrow>
          if limitHeader = [] then Some rl
          else (case first_number (header_numbers limitHeader) of
                  NaN \<Rightarrow> Some rl
                | Num perSecondLimit \<Rightarrow>
                    if perSecondLimit \<noteq> 0 \<and> perSecondLimit > 0
                    then Some (configure rl ''search'' (real_of_int perSecondLimit) 1000 now)
                    else Some rl
                | PosInfinity \<Rightarrow> None
                | NegInfinity \<Rightarrow> Some rl))"

definition brave_429_message :: "(int \<Rightarrow> string) \<Rightarrow> 'j response \<Rightarrow> string" where
  "brave_429_message big response =
     ''Brave API rate limit exceeded.''
     @ (if truthy_str (headers_get response ''Retry-After'')
        then '' Retry after ''
             @ show_number big (parseInt (str_or (headers_get response ''Retry-After'') []))
             @ '' seconds.''
        else if truthy_str (headers_get response ''X-RateLimit-Reset'')
        then '' Rate limit resets in ''
             @ show_number big (first_number (header_numbers
                  (str_or (headers_get response ''X-RateLimit-Reset'') [])))
             @ '' seconds.''
        else [])
     @ (if truthy_str (headers_get response ''X-RateLimit-Remaining'')
        then (let remaining = header_numbers (str_or (headers_get response ''X-RateLimit-Remaining'') [])
              in '' Remaining: '' @ show_number big (first_number remaining) @ '' per-second, ''
                 @ (case remaining of _ # m # _ \<Rightarrow> show_number big m | _ \<Rightarrow> ''N/A'')
                 @ '' per-month.'')
        else [])"

definition brave_result :: "BraveRawResult \<Rightarrow> SearchResult" where
  "brave_result r =
     \<lparr>sr_title = str_or (map_option (take 500) (b_title r)) ''No title'',
      sr_url = str_or (b_url r) [],
      sr_snippet = take 500 (str_or (b_description r) ''No description available'')\<rparr>"

text \<open>\<open>results.slice(0, maxResults)\<close>: a negative bound counts from the end.\<close>

definition slice0 :: "'a list \<Rightarrow> int \<Rightarrow> 'a list" where
  "slice0 xs n = (if n < 0 then take (length xs - nat (- n)) xs else take (nat n) xs)"

text \<open>What \<open>searchBrave\<close> makes of the response once the headers have been applied;
  \<open>maxResults\<close> is an integer.\<close>

definition searchBrave_settle ::
  "(int \<Rightarrow> string) \<Rightarrow> BraveData response \<Rightarrow> int \<Rightarrow> failure + SearchResult list" where
  "searchBrave_settle big response maxResults =
     (if ok response
      then (case json response of
              None \<Rightarrow> Inl (FetchError ''invalid json response body'')
            | Some data \<Rightarrow>
                (case web_results data of
                   None \<Rightarrow> Inr []
                 | Some rs \<Rightarrow>
                     Inr (filter (\<lambda>r. sr_url r \<noteq> [] \<and> sr_title r \<noteq> [])
                            (map brave_result (slice0 rs maxResults)))))
      else if status response = 401 \<or> status response = 403
      then Inl (Err (Error (''Brave API authentication failed ('' @ show_int (status response)
                             @ ''). Please check your brave_api_key parameter.'')))
      else if status response = 429
      then Inl (Err (Error (brave_429_message big response)))
      else Inl (Err (Error (''Brave API returned status '' @ show_int (status response) @ '': ''
                             @ statusText response))))"

text \<open>\<open>searchBrave\<close>. \<open>mkurl\<close> is the URL class building the request URL from the base
  and the query parameters. The limiter in the result is as
  \<open>updateRateLimiterFromBraveHeaders\<close> returns it.\<close>

definition searchBrave ::
  "(int \<Rightarrow> string) \<Rightarrow> (string \<Rightarrow> (string \<times> string) list \<Rightarrow> string option)
     \<Rightarrow> (request \<Rightarrow> failure + BraveData response)
     \<Rightarrow> RateLimiter \<Rightarrow> string \<Rightarrow> string \<Rightarrow> int \<Rightarrow> int
     \<Rightarrow> (failure + SearchResult list) \<times> RateLimiter option \<times> event list" where
  "searchBrave big mkurl net rl q braveApiKey maxResults now =
     (case mkurl ''https://api.search.brave.com/res/v1/web/search''
             [(''q'', q), (''count'', show_number big (Num maxResults)), (''safesearch'', ''moderate'')] of
        None \<Rightarrow> (Inl (Err (TypeError ''Invalid URL'')), Some rl, [])
      | Some searchUrl \<Rightarrow>
          (let rq = \<lparr>req_url = searchUrl,
                     req_headers = [(''Accept'', ''application/json''), (''Accept-Encoding'', ''gzip''),
                                    (''X-Subscription-Token'', braveApiKey)]\<rparr>
           in case net rq of
                Inl (AbortError m) \<Rightarrow>
                  (Inl (Err (Error ''Brave Search API request timed out'')), Some rl, [Request rq])
              | Inl f \<Rightarrow> (Inl f, Some rl, [Request rq])
              | Inr response \<Rightarrow>
                  (searchBrave_settle big response maxResults,
                   updateRateLimiterFromBraveHeaders rl response now, [Request rq])))"

text \<open>\<open>searchWeb\<close>: the clock is read at \<open>t1\<close> on entry to \<open>acquire\<close>, at \<open>t2\<close> after a wait
  inside it, and at \<open>t3\<close> when the response headers are applied.\<close>

definition searchWeb ::
  "(int \<Rightarrow> string) \<Rightarrow> (string \<Rightarrow> (string \<times> string) list \<Rightarrow> string option)
     \<Rightarrow> (request \<Rightarrow> failure + BraveData response)
     \<Rightarrow> RateLimiter \<Rightarrow> string \<Rightarrow> string \<Rightarrow> int \<Rightarrow> int \<Rightarrow> int \<Rightarrow> int
     \<Rightarrow> (failure + SearchResult list) \<times> RateLimiter option \<times> event list" where
  "searchWeb big mkurl net rl q braveApiKey maxResults t1 t2 t3 =
     (if trim braveApiKey = []
      then (Inl (Err (Error ''Web search requires brave_api_key parameter to be provided. The API key must be included in the tool call parameters. Get your free API key at: https://brave.com/search/api'')),
            Some rl, [])
      else (case acquire rl ''search'' t1 t2 of
              Inl e \<Rightarrow> (Inl (Err e), Some rl, [])
            | Inr (rl1, w) \<Rightarrow>
                (let waited = (case w of None \<Rightarrow> [] | Some ms \<Rightarrow> [Suspend ms]);
                     r = searchBrave big mkurl net rl1 q braveApiKey (min maxResults 20) t3
                 in (fst r, fst (snd r), waited @ snd (snd r)))))"


section \<open>HTML documents as cheerio presents them\<close>

text \<open>
  \<open>cheerio.load(html)\<close> parses the page into a tree; the parser is a library and is
  supplied from outside as a function from the page source to the children of the document
  root. Element and attribute names arrive in lower case; an element keeps the first of
  several attributes of the same name.
\<close>

datatype node =
    Element string "(string \<times> string) list" "node list"
  | Text string
  | Comment string

fun tag :: "node \<Rightarrow> string" where
  "tag (Element t as cs) = t"
| "tag (Text s) = []"
| "tag (Comment s) = []"

fun attr :: "node \<Rightarrow> string \<Rightarrow> string option" where
  "attr (Element t as cs) k = map_of as k"
| "attr (Text s) k = None"
| "attr (Comment s) k = None"

fun children :: "node \<Rightarrow> node list" where
  "children (Element t as cs) = cs"
| "children (Text s) = []"
| "children (Comment s) = []"

text \<open>All elements below the given nodes, the nodes themselves included, in document
  order: what \<open>$('selector')\<close> filters.\<close>

fun elems :: "node \<Rightarrow> node list"
  and elems_list :: "node list \<Rightarrow> node list" where
  "elems (Element t as cs) = Element t as cs # elems_list cs"
| "elems (Text s) = []"
| "elems (Comment s) = []"
| "elems_list [] = []"
| "elems_list (n # ns) = elems n @ elems_list ns"

definition select :: "(node \<Rightarrow> bool) \<Rightarrow> node list \<Rightarrow> node list" where
  "select P doc = filter P (elems_list doc)"

text \<open>\<open>.first()\<close> of a selection.\<close>

definition first :: "node list \<Rightarrow> node list" where
  "first sel = take 1 sel"

text \<open>\<open>.text()\<close>: the text nodes below the selected nodes, concatenated.\<close>

fun text_of :: "node \<Rightarrow> string"
  and text_list :: "node list \<Rightarrow> string" where
  "text_of (Element t as cs) = text_list cs"
| "text_of (Text s) = s"
| "text_of (Comment s) = []"
| "text_list [] = []"
| "text_list (n # ns) = text_of n @ text_list ns"

text \<open>\<open>.attr(k)\<close> reads the first selected element.\<close>

definition attr_first :: "node list \<Rightarrow> string \<Rightarrow> string option" where
  "attr_first sel k = (case sel of [] \<Rightarrow> None | n # _ \<Rightarrow> attr n k)"

text \<open>\<open>.remove()\<close> of everything a predicate selects: a selected element goes with all it
  contains. The list version is applied to the children of the root, and to the children
  of an element for \<open>.find(..).remove()\<close>.\<close>

fun remove_where :: "(node \<Rightarrow> bool) \<Rightarrow> node \<Rightarrow> node"
  and remove_where_list :: "(node \<Rightarrow> bool) \<Rightarrow> node list \<Rightarrow> node list" where
  "remove_where P (Element t as cs) = Element t as (remove_where_list P cs)"
| "remove_where P (Text s) = Text s"
| "remove_where P (Comment s) = Comment s"
| "remove_where_list P [] = []"
| "remove_where_list P (n # ns) =
     (if P n then remove_where_list P ns else remove_where P n # remove_where_list P ns)"

subsection \<open>The selectors of parseHtmlToContent\<close>

text \<open>White space separating class names.\<close>

definition is_html_space :: "char \<Rightarrow> bool" where
  "is_html_space c = (c \<in> set [CHR 0x20, CHR 0x09, CHR 0x0A, CHR 0x0C, CHR 0x0D])"

fun class_names :: "string \<Rightarrow> string list" where
  "class_names [] = [[]]"
| "class_names (c # cs) =
     (if is_html_space c then [] # class_names cs
      else (case class_names cs of
              w # ws \<Rightarrow> (c # w) # ws
            | [] \<Rightarrow> [[c]]))"

definition has_class :: "node \<Rightarrow> string \<Rightarrow> bool" where
  "has_class n c = (case attr n ''class'' of None \<Rightarrow> False | Some v \<Rightarrow> c \<in> set (class_names v))"

definition attr_contains :: "node \<Rightarrow> string \<Rightarrow> string \<Rightarrow> bool" where
  "attr_contains n k sub = (case attr n k of None \<Rightarrow> False | Some v \<Rightarrow> str_includes v sub)"

fun is_element :: "node \<Rightarrow> bool" where
  "is_element (Element t as cs) = True"
| "is_element (Text s) = False"
| "is_element (Comment s) = False"

text \<open>\<open>script, style, noscript, nav, header, footer, aside, .advertisement, .ads,
  [class*="ad-"], [class*="advertisement"], [id*="ad-"], [id*="advertisement"]\<close>\<close>

definition stripped :: "node \<Rightarrow> bool" where
  "stripped n =
     (is_element n \<and>
      (tag n \<in> set [''script'', ''style'', ''noscript'', ''nav'', ''header'', ''footer'', ''aside'']
       \<or> has_class n ''advertisement'' \<or> has_class n ''ads''
       \<or> attr_contains n ''class'' ''ad-'' \<or> attr_contains n ''class'' ''advertisement''
       \<or> attr_contains n ''id'' ''ad-'' \<or> attr_contains n ''id'' ''advertisement''))"

text \<open>\<open>$.root().find('*').contents().filter(nodeType === 8).remove()\<close>: comments that are
  children of an element go; comments directly under the root stay.\<close>

fun is_comment :: "node \<Rightarrow> bool" where
  "is_comment (Comment s) = True"
| "is_comment (Element t as cs) = False"
| "is_comment (Text s) = False"

definition remove_comments :: "node list \<Rightarrow> node list" where
  "remove_comments doc = map (remove_where is_comment) doc"

text \<open>\<open>main, article, [role="main"]\<close>; then
  \<open>.content, .main-content, .post-content, .entry-content, .article-content\<close>; then \<open>body\<close>;
  and \<open>nav, header, footer\<close> for the removal inside the body.\<close>

definition is_main :: "node \<Rightarrow> bool" where
  "is_main n = (is_element n \<and> (tag n = ''main'' \<or> tag n = ''article'' \<or> attr n ''role'' = Some ''main''))"

definition is_content_class :: "node \<Rightarrow> bool" where
  "is_content_class n =
     (is_element n \<and>
      (has_class n ''content'' \<or> has_class n ''main-content'' \<or> has_class n ''post-content''
       \<or> has_class n ''entry-content'' \<or> has_class n ''article-content''))"

definition is_chrome :: "node \<Rightarrow> bool" where
  "is_chrome n = (is_element n \<and> tag n \<in> set [''nav'', ''header'', ''footer''])"

definition has_tag :: "string \<Rightarrow> node \<Rightarrow> bool" where
  "has_tag t n = (is_element n \<and> tag n = t)"

definition is_meta :: "string \<Rightarrow> string \<Rightarrow> node \<Rightarrow> bool" where
  "is_meta k v n = (is_element n \<and> tag n = ''meta'' \<and> attr n k = Some v)"

section \<open>HTML to text (web-search/html-parser.ts)\<close>

definition MAX_TITLE_LEN :: nat where
  "MAX_TITLE_LEN = 500"

definition MAX_TEXT_LEN :: nat where
  "MAX_TEXT_LEN = 50000"

definition NL :: char where
  "NL = CHR 0x0A"

record ParsedHtmlContent =
  title :: string
  content :: string
  textContent :: string

subsection \<open>Cleaning the lines\<close>

definition upper_of :: "char \<Rightarrow> char" where
  "upper_of c =
     (case map_of (zip ''abcdefghijklmnopqrstuvwxyz'' ''ABCDEFGHIJKLMNOPQRSTUVWXYZ'') c of
        Some u \<Rightarrow> u
      | None \<Rightarrow> c)"

text \<open>A whole line against one lower-case word of the pattern, ignoring case.\<close>

fun ci_match :: "string \<Rightarrow> string \<Rightarrow> bool" where
  "ci_match [] [] = True"
| "ci_match (c # cs) (d # ds) = ((c = d \<or> c = upper_of d) \<and> ci_match cs ds)"
| "ci_match [] (d # ds) = False"
| "ci_match (c # cs) [] = False"

text \<open>\<open>/^(cookie|privacy|terms|skip|menu|search|login|register)$/i\<close>\<close>

definition is_nav_word :: "string \<Rightarrow> bool" where
  "is_nav_word line =
     list_ex (ci_match line)
       [''cookie'', ''privacy'', ''terms'', ''skip'', ''menu'', ''search'', ''login'', ''register'']"

text \<open>\<open>lines.join('\n')\<close>\<close>

fun join_lines :: "string list \<Rightarrow> string" where
  "join_lines [] = []"
| "join_lines [l] = l"
| "join_lines (l # m # ls) = l @ NL # join_lines (m # ls)"

text \<open>\<open>replace(/\n{3,}/g, '\n\n')\<close>: \<open>n\<close> counts the line feeds of the run being read; a
  run of one or two is kept, a longer one becomes two.\<close>

fun collapse_newlines :: "nat \<Rightarrow> string \<Rightarrow> string" where
  "collapse_newlines n [] = replicate (min n 2) NL"
| "collapse_newlines n (c # cs) =
     (if c = NL then collapse_newlines (Suc n) cs
      else replicate (min n 2) NL @ c # collapse_newlines 0 cs)"

definition clean_text :: "string \<Rightarrow> string" where
  "clean_text t =
     trim (collapse_newlines 0
       (join_lines
          (filter (\<lambda>line. \<not> is_nav_word line)
             (filter (\<lambda>line. length line > 0 \<and> length line > 2)
                (map trim (split_on NL t))))))"

subsection \<open>Truncation\<close>

text \<open>\<open>s.lastIndexOf(pat)\<close>: the greatest position at which \<open>pat\<close> starts in \<open>s\<close>, or \<open>-1\<close>.\<close>

fun lastIndexOf :: "string \<Rightarrow> string \<Rightarrow> int" where
  "lastIndexOf [] pat = (if pat = [] then 0 else - 1)"
| "lastIndexOf (c # cs) pat =
     (let r = lastIndexOf cs pat
      in if 0 \<le> r then r + 1 else if prefix pat (c # cs) then 0 else - 1)"

definition truncate_text :: "string \<Rightarrow> string" where
  "truncate_text t =
     (if length t > MAX_TEXT_LEN
      then (let truncated = take MAX_TEXT_LEN t;
                lastSentence = lastIndexOf truncated ''.'';
                lastParagraph = lastIndexOf truncated [NL, NL];
                cutPoint = max lastSentence lastParagraph
            in take (if cutPoint > 40000 then nat cutPoint else MAX_TEXT_LEN) truncated
               @ [NL, NL] @ ''[Content truncated...]'')
      else t)"

subsection \<open>parseHtmlToContent\<close>

text \<open>The last path segment of the URL without its query:
  \<open>finalUrl.split('/').pop()?.split('?')[0]\<close>.\<close>

definition url_tail :: "string \<Rightarrow> string" where
  "url_tail finalUrl =
     (case rev (split_on CHR ''/'' finalUrl) of
        [] \<Rightarrow> []
      | seg # _ \<Rightarrow> (case split_on CHR ''?'' seg of [] \<Rightarrow> [] | s # _ \<Rightarrow> s))"

text \<open>A chain of \<open>||\<close> over strings: the first non-empty one, the last as it is.\<close>

fun first_nonempty :: "string list \<Rightarrow> string" where
  "first_nonempty [] = []"
| "first_nonempty [s] = s"
| "first_nonempty (s # r # rs) = (if s \<noteq> [] then s else first_nonempty (r # rs))"

definition resolve_title :: "node list \<Rightarrow> string \<Rightarrow> string" where
  "resolve_title doc finalUrl =
     first_nonempty
       [trim (text_list (select (has_tag ''title'') doc)),
        trim (text_list (first (select (has_tag ''h1'') doc))),
        str_or (attr_first (select (is_meta ''property'' ''og:title'') doc) ''content'') [],
        str_or (attr_first (select (is_meta ''name'' ''twitter:title'') doc) ''content'') [],
        url_tail finalUrl,
        finalUrl]"

text \<open>The main-content selection; in the last case the body has \<open>nav\<close>, \<open>header\<close> and
  \<open>footer\<close> removed from inside it.\<close>

definition main_content :: "node list \<Rightarrow> node list" where
  "main_content doc =
     (if first (select is_main doc) \<noteq> [] then first (select is_main doc)
      else if first (select is_content_class doc) \<noteq> [] then first (select is_content_class doc)
      else map (remove_where is_chrome) (select (has_tag ''body'') doc))"

text \<open>\<open>serialize\<close> stands for the library's \<open>.html()\<close> on the children of an element.
  \<open>parse_document\<close> is the function from the parsed tree on; \<open>parseHtmlToContent\<close> applies
  it to what the parser \<open>load\<close> returns.\<close>

definition parse_document ::
  "(node list \<Rightarrow> string) \<Rightarrow> node list \<Rightarrow> string \<Rightarrow> ParsedHtmlContent" where
  "parse_document serialize parsed finalUrl =
     (let doc = remove_comments (remove_where_list stripped parsed);
          mainContent = main_content doc
      in \<lparr>title = take MAX_TITLE_LEN (resolve_title doc finalUrl),
          content = (case mainContent of [] \<Rightarrow> [] | m # _ \<Rightarrow> serialize (children m)),
          textContent = truncate_text (clean_text (text_list mainContent))\<rparr>)"

definition parseHtmlToContent ::
  "(string \<Rightarrow> node list) \<Rightarrow> (node list \<Rightarrow> string) \<Rightarrow> string \<Rightarrow> string \<Rightarrow> ParsedHtmlContent" where
  "parseHtmlToContent load serialize html finalUrl = parse_document serialize (load html) finalUrl"

subsection \<open>Notions for stating what the extractor does\<close>

text \<open>\<open>pat\<close> starts at position \<open>j\<close> of \<open>s\<close>.\<close>

definition occurs_at :: "string \<Rightarrow> string \<Rightarrow> nat \<Rightarrow> bool" where
  "occurs_at pat s j = (j \<le> length s \<and> prefix pat (drop j s))"

text \<open>A document with the content of every \<open>script\<close>, \<open>style\<close> and \<open>noscript\<close> element
  taken out: two documents with the same image differ only inside such elements.\<close>

fun blank :: "node \<Rightarrow> node"
  and blank_list :: "node list \<Rightarrow> node list" where
  "blank (Element t as cs) =
     (if t \<in> set [''script'', ''style'', ''noscript''] then Element t as []
      else Element t as (blank_list cs))"
| "blank (Text s) = Text s"
| "blank (Comment s) = Comment s"
| "blank_list [] = []"
| "blank_list (n # ns) = blank n # blank_list ns"

text \<open>The tree the parser builds for a page that is just a run of text: \<open>html\<close>, an empty
  \<open>head\<close>, and a \<open>body\<close> holding the text.\<close>

definition text_page :: "string \<Rightarrow> node list" where
  "text_page s = [Element ''html'' [] [Element ''head'' [] [], Element ''body'' [] [Text s]]]"

text \<open>The tree for \<open><script>malicious()</script><p>Hello world is long enough</p>\<close>: the
  parser puts the leading script into the head and the paragraph into the body.\<close>

definition script_page :: "node list" where
  "script_page =
     [Element ''html'' []
        [Element ''head'' [] [Element ''script'' [] [Text ''malicious()'']],
         Element ''body'' [] [Element ''p'' [] [Text ''Hello world is long enough'']]]]"

section \<open>Content acquisition: fetchUrl (web-search service)\<close>

record FetchResult = ParsedHtmlContent +
  result_url :: string

text \<open>The \<open>catch\<close> clause of \<open>fetchUrl\<close>.\<close>

definition fetchUrl_catch :: "string \<Rightarrow> failure \<Rightarrow> failure" where
  "fetchUrl_catch u f =
     (case f of
        AbortError m \<Rightarrow> Err (Error ''URL fetch request timed out after 15 seconds'')
      | _ \<Rightarrow>
          if str_includes (failure_message f) ''Invalid URL''
          then Err (Error (''Invalid URL: '' @ u))
          else if str_includes (failure_message f) ''rate limit''
          then Err (Error ''Rate limit exceeded. Please wait before trying again.'')
          else Err (Error (''Failed to fetch URL: '' @ failure_message f)))"

text \<open>What \<open>fetchUrl\<close> returns for a response with a 2xx status: the dispatch on the
  \<open>content-type\<close> header.\<close>

definition fetchUrl_dispatch ::
  "(string \<Rightarrow> node list) \<Rightarrow> (node list \<Rightarrow> string) \<Rightarrow> 'j response \<Rightarrow> string \<Rightarrow> FetchResult" where
  "fetchUrl_dispatch load serialize response normalized =
     (let contentType = str_or (headers_get response ''content-type'') [];
          finalUrl = (if url response = [] then normalized else url response)
      in if \<not> str_includes contentType ''text/html'' \<and> \<not> str_includes contentType ''text/plain''
         then \<lparr>title = ''Non-text content'', content = [],
               textContent = ''Content type '' @ contentType
                   @ '' is not supported. Only HTML and plain text are supported.'',
               result_url = finalUrl\<rparr>
         else (let body = text_body response
               in if str_includes contentType ''text/plain''
                  then (let truncated = take 50000 body
                        in \<lparr>title = (case rev (split_on CHR ''/'' finalUrl) of
                                         [] \<Rightarrow> finalUrl
                                       | seg # _ \<Rightarrow> if seg = [] then finalUrl else seg),
                             content = truncated, textContent = truncated,
                             result_url = finalUrl\<rparr>)
                  else (let parsed = parseHtmlToContent load serialize body finalUrl
                        in \<lparr>title = title parsed, content = content parsed,
                             textContent = textContent parsed, result_url = finalUrl\<rparr>)))"

text \<open>
  \<open>fetchUrl\<close>. \<open>href\<close> and \<open>resolve\<close> are the URL class, \<open>net\<close> the network, \<open>load\<close> and
  \<open>serialize\<close> the HTML library; the clock is read at \<open>t1\<close> on entry to \<open>acquire\<close> and at
  \<open>t2\<close> after a wait inside it. \<open>acquire\<close> and \<open>new URL(normalized)\<close> run before the
  \<open>try\<close> block, so what they throw is not rewritten by the \<open>catch\<close> clause.
\<close>

definition fetchUrl ::
  "(string \<Rightarrow> string option) \<Rightarrow> (string \<Rightarrow> string \<Rightarrow> string option)
     \<Rightarrow> (request \<Rightarrow> failure + 'j response)
     \<Rightarrow> (string \<Rightarrow> node list) \<Rightarrow> (node list \<Rightarrow> string)
     \<Rightarrow> RateLimiter \<Rightarrow> string \<Rightarrow> int \<Rightarrow> int
     \<Rightarrow> (failure + FetchResult) \<times> RateLimiter \<times> event list" where
  "fetchUrl href resolve net load serialize rl u t1 t2 =
     (case acquire rl ''fetch'' t1 t2 of
        Inl e \<Rightarrow> (Inl (Err e), rl, [])
      | Inr (rl1, w) \<Rightarrow>
          (let waited = (case w of None \<Rightarrow> [] | Some ms \<Rightarrow> [Suspend ms]);
               normalized = cleanUrl href u
           in case href normalized of
                None \<Rightarrow> (Inl (Err (TypeError ''Invalid URL'')), rl1, waited)
              | Some h \<Rightarrow>
                  (let first_try = fetchWithTimeout net normalized None
                   in case fst first_try of
                        Inl f \<Rightarrow> (Inl (fetchUrl_catch u f), rl1, waited @ map Request (snd first_try))
                      | Inr response0 \<Rightarrow>
                          (let followed = follow300Redirect resolve net response0 normalized;
                               sent = waited @ map Request (snd first_try @ snd followed)
                           in case fst followed of
                                Inl f \<Rightarrow> (Inl (fetchUrl_catch u f), rl1, sent)
                              | Inr response \<Rightarrow>
                                  if ok response
                                  then (Inr (fetchUrl_dispatch load serialize response normalized),
                                        rl1, sent)
                                  else (Inl (fetchUrl_catch u
                                          (Err (Error (''HTTP '' @ show_int (status response) @ '': ''
                                                        @ statusText response)))),
                                        rl1, sent)))))"

text \<open>The constructor of the content service.\<close>

definition new_ContentService :: "RateLimiter \<Rightarrow> int \<Rightarrow> RateLimiter" where
  "new_ContentService rl now = configure rl ''fetch'' 20 60000 now"

section \<open>Sitemaps (web-search/sitemap-parser.ts)\<close>

text \<open>
  \<open>XMLParser.parse\<close> is a library; it is supplied from outside, and what it returns is a
  JavaScript value of this shape: text becomes a string, a number or a boolean, an element
  with children becomes an object keyed by child name (in document order), and repeated
  children become an array. It produces neither \<open>null\<close> nor \<open>undefined\<close>. A number is kept
  as the string \<open>String(n)\<close> gives for it.
\<close>

datatype xv =
    XStr string
  | XNum string
  | XBool bool
  | XObj "(string \<times> xv) list"
  | XArr "xv list"

fun truthy :: "xv \<Rightarrow> bool" where
  "truthy (XStr s) = (s \<noteq> [])"
| "truthy (XNum s) = (s \<noteq> ''0'')"
| "truthy (XBool b) = b"
| "truthy (XObj kv) = True"
| "truthy (XArr vs) = True"

text \<open>\<open>typeof v === 'object'\<close>\<close>

fun is_object :: "xv \<Rightarrow> bool" where
  "is_object (XObj kv) = True"
| "is_object (XArr vs) = True"
| "is_object (XStr s) = False"
| "is_object (XNum s) = False"
| "is_object (XBool b) = False"

text \<open>\<open>v.k\<close> and \<open>v[k]\<close> for the keys read here: only an object made from an element has
  them.\<close>

fun get_prop :: "xv \<Rightarrow> string \<Rightarrow> xv option" where
  "get_prop (XObj kv) k = map_of kv k"
| "get_prop (XArr vs) k = None"
| "get_prop (XStr s) k = None"
| "get_prop (XNum s) k = None"
| "get_prop (XBool b) k = None"

fun join_commas :: "string list \<Rightarrow> string" where
  "join_commas [] = []"
| "join_commas [s] = s"
| "join_commas (s # r # rs) = s @ CHR '','' # join_commas (r # rs)"

text \<open>\<open>String(v)\<close>\<close>

fun to_String :: "xv \<Rightarrow> string" where
  "to_String (XStr s) = s"
| "to_String (XNum s) = s"
| "to_String (XBool b) = (if b then ''true'' else ''false'')"
| "to_String (XObj kv) = ''[object Object]''"
| "to_String (XArr vs) = join_commas (map to_String vs)"

fun getStr :: "xv option \<Rightarrow> xv option" where
  "getStr None = None"
| "getStr (Some (XStr s)) = Some (XStr s)"
| "getStr (Some (XObj kv)) = map_of kv ''#text''"
| "getStr (Some (XArr vs)) = None"
| "getStr (Some (XNum s)) = None"
| "getStr (Some (XBool b)) = None"

text \<open>The optional fields hold what \<open>getStr\<close> returned, which for an element with both
  text and children is the text as the parser typed it.\<close>

record SitemapUrl =
  loc :: string
  lastmod :: "xv option"
  changefreq :: "xv option"
  priority :: "xv option"

record SitemapEntry =
  entry_loc :: string
  entry_lastmod :: "xv option"

datatype FetchSitemapResult =
    Urlset "SitemapUrl list"
  | Sitemapindex "SitemapEntry list"

text \<open>\<open>Array.isArray(x) ? x : x ? [x] : []\<close>\<close>

fun as_list :: "xv option \<Rightarrow> xv list" where
  "as_list None = []"
| "as_list (Some (XArr vs)) = vs"
| "as_list (Some v) = (if truthy v then [v] else [])"

definition toUrl :: "xv \<Rightarrow> SitemapUrl" where
  "toUrl u =
     \<lparr>loc = (case getStr (get_prop u ''loc'') of
                None \<Rightarrow> []
              | Some l \<Rightarrow> if truthy l then to_String l else []),
      lastmod = getStr (get_prop u ''lastmod''),
      changefreq = getStr (get_prop u ''changefreq''),
      priority = getStr (get_prop u ''priority'')\<rparr>"

definition toUrlList :: "xv \<Rightarrow> SitemapUrl list" where
  "toUrlList urlset = filter (\<lambda>u. loc u \<noteq> []) (map toUrl (as_list (get_prop urlset ''url'')))"

text \<open>One child of a sitemap index: \<open>None\<close> is the \<open>null\<close> that \<open>filter(Boolean)\<close> drops.\<close>

definition toSitemapEntry :: "xv \<Rightarrow> SitemapEntry option" where
  "toSitemapEntry s =
     (let l = (case get_prop s ''loc'' of
                 Some (XStr t) \<Rightarrow> Some (XStr t)
               | Some (XObj kv) \<Rightarrow> (case map_of kv ''#text'' of None \<Rightarrow> Some (XStr []) | Some t \<Rightarrow> Some t)
               | _ \<Rightarrow> Some (XStr []));
          m = (case get_prop s ''lastmod'' of
                 Some (XStr t) \<Rightarrow> Some (XStr t)
               | Some (XObj kv) \<Rightarrow> map_of kv ''#text''
               | _ \<Rightarrow> None)
      in case l of
           Some (XStr t) \<Rightarrow> if t \<noteq> [] then Some \<lparr>entry_loc = t, entry_lastmod = m\<rparr> else None
         | _ \<Rightarrow> None)"

definition toSitemapEntries :: "xv \<Rightarrow> SitemapEntry list" where
  "toSitemapEntries sitemapindex =
     List.map_filter toSitemapEntry (as_list (get_prop sitemapindex ''sitemap''))"

text \<open>\<open>/name/i.test(key)\<close> for a lower-case \<open>name\<close>.\<close>

fun ci_includes :: "string \<Rightarrow> string \<Rightarrow> bool" where
  "ci_includes [] pat = (pat = [])"
| "ci_includes (c # cs) pat =
     ((length pat \<le> length (c # cs) \<and> ci_match (take (length pat) (c # cs)) pat)
      \<or> ci_includes cs pat)"

text \<open>\<open>obj.name ?? obj['name'] ?? (rootKey && /name/i.test(rootKey) ? obj[rootKey] : undefined)\<close>
  where \<open>rootKey\<close> is the first key of the parsed document.\<close>

definition root_value :: "(string \<times> xv) list \<Rightarrow> string \<Rightarrow> xv option" where
  "root_value obj name =
     (case map_of obj name of
        Some v \<Rightarrow> Some v
      | None \<Rightarrow>
          (case obj of
             [] \<Rightarrow> None
           | (rootKey, v) # _ \<Rightarrow>
               if rootKey \<noteq> [] \<and> ci_includes rootKey name then map_of obj rootKey else None))"

definition usable :: "xv option \<Rightarrow> bool" where
  "usable v = (case v of None \<Rightarrow> False | Some x \<Rightarrow> truthy x \<and> is_object x)"

definition parse_sitemap_object :: "(string \<times> xv) list \<Rightarrow> FetchSitemapResult" where
  "parse_sitemap_object obj =
     (let urlset = root_value obj ''urlset'';
          sitemapindex = root_value obj ''sitemapindex''
      in if usable sitemapindex
         then Sitemapindex (toSitemapEntries (case sitemapindex of Some x \<Rightarrow> x | None \<Rightarrow> XStr []))
         else if usable urlset
         then Urlset (toUrlList (case urlset of Some x \<Rightarrow> x | None \<Rightarrow> XStr []))
         else Urlset [])"

definition parseSitemapXml :: "(string \<Rightarrow> (string \<times> xv) list) \<Rightarrow> string \<Rightarrow> FetchSitemapResult" where
  "parseSitemapXml xml_parse xml = parse_sitemap_object (xml_parse xml)"

subsection \<open>What the parser returns for well-formed sitemaps\<close>

text \<open>
  Modelled from the library's documented behaviour, for stating what a valid sitemap parses
  to: children of one name are a single value when there is one and an array when there are
  several, an element without content is the empty string, and the XML declaration is
  dropped (\<open>ignoreDeclaration\<close>).
\<close>

definition repeated :: "string \<Rightarrow> xv list \<Rightarrow> xv" where
  "repeated name vs =
     (case vs of
        [] \<Rightarrow> XStr []
      | [v] \<Rightarrow> XObj [(name, v)]
      | _ \<Rightarrow> XObj [(name, XArr vs)])"

text \<open>An element (a \<open><url>\<close> or a \<open><sitemap>\<close>) whose \<open><loc>\<close> child holds the
  non-empty text \<open>l\<close>; it may have any other children.\<close>

definition has_loc :: "xv \<Rightarrow> string \<Rightarrow> bool" where
  "has_loc u l = (get_prop u ''loc'' = Some (XStr l) \<and> l \<noteq> [])"

definition urlset_document :: "xv list \<Rightarrow> (string \<times> xv) list" where
  "urlset_document us = [(''urlset'', repeated ''url'' us)]"

definition sitemapindex_document :: "xv list \<Rightarrow> (string \<times> xv) list" where
  "sitemapindex_document us = [(''sitemapindex'', repeated ''sitemap'' us)]"

section \<open>Properties of the rate limiter\<close>






lemma refilled_fields [simp]:
  "maxTokens (refilled s op' mx rr now) = maxTokens s"
  "refillRate (refilled s op' mx rr now) = refillRate s"
  by (simp_all add: refilled_def)












lemma steady_reachable: "steady s ps \<Longrightarrow> reachable s ps"
  by (induction rule: steady.induct) (auto intro: reachable.intros)












subsection \<open>Token counts\<close>

lemma drained_fetch_reached:
  "acquire_n 20 (configure new_RateLimiter ''fetch'' 20 60000 1700000000000) ''fetch'' 1700000000000
     = Inr drained_fetch"
  by (simp add: eval_nat_numeral acquire_begin_def acquire_resume_def configure_def
        new_RateLimiter_def get_or_def Let_def drained_fetch_def)

text \<open>
  Claim C1 states that the token count of every configured class stays within
  \<open>0 \<le> tokens \<le> capacity\<close> and that every admitted \<open>acquire\<close> lowers it by exactly 1,
  also when the call had to wait. On the waiting path the code stores
  \<open>min maxTokens refillRate - 1\<close> after the wait, the rate standing in for the refilled
  count. With the content service's own configuration (20 requests per 60000 ms, rate 1/3
  per second) the first 20 calls empty the bucket; the 21st asks for a 3000 ms wait and
  leaves \<open>-2/3\<close> of a token, which is below zero and is not one less than the count it
  found.
\<close>

theorem acquire_wait_path_overdraws:
  "acquire_n 20 (configure new_RateLimiter ''fetch'' 20 60000 1700000000000) ''fetch'' 1700000000000
     = Inr drained_fetch
   \<and> tokens drained_fetch ''fetch'' = Some 0
   \<and> acquire drained_fetch ''fetch'' 1700000000000 1700000003000 = Inr (overdrawn_fetch, Some 3000)
   \<and> tokens overdrawn_fetch ''fetch'' = Some (- 2 / 3)
   \<and> (- 2 / 3 :: real) < 0"
proof -
  have "acquire drained_fetch ''fetch'' 1700000000000 1700000003000 = Inr (overdrawn_fetch, Some 3000)"
    by (simp add: acquire_def acquire_begin_def acquire_resume_def get_or_def Let_def
          drained_fetch_def overdrawn_fetch_def)
  then show ?thesis
    using drained_fetch_reached by (simp add: drained_fetch_def overdrawn_fetch_def)
qed






section \<open>Decimal numbers are read back as written\<close>










subsection \<open>Rounding to a double\<close>



lemma bit_length_upper: "n < 2 ^ bit_length n"
proof (induction n rule: bit_length.induct)
  case (1 n)
  show ?case
  proof (cases "n = 0")
    case True
    then show ?thesis by simp
  next
    case False
    then have "n div 2 < 2 ^ bit_length (n div 2)" using "1.IH" by simp
    then have "n < 2 * 2 ^ bit_length (n div 2)" by linarith
    then show ?thesis using False by (simp add: bit_length.simps[of n])
  qed
qed


text \<open>The rounded value lies within half a unit in the last place of the number.\<close>

lemma round_to_double_near:
  assumes "2 ^ 53 \<le> n" "round_to_double n = Some d"
  shows "2 * (if d \<le> n then n - d else d - n) \<le> 2 ^ (bit_length n - 53)"
proof -
  define e where "e = bit_length n - 53"
  define h :: nat where "h = 2 ^ (e - 1)"
  define p :: nat where "p = 2 ^ e"
  define q where "q = n div p"
  define r where "r = n mod p"
  have bl: "53 < bit_length n"
  proof (rule ccontr)
    assume "\<not> 53 < bit_length n"
    then have "(2::nat) ^ bit_length n \<le> 2 ^ 53" by (intro power_increasing) simp_all
    then show False using bit_length_upper[of n] assms(1) by linarith
  qed
  have e1: "e = Suc (e - 1)" using bl by (simp add: e_def)
  have pe: "p = 2 * h" unfolding p_def h_def by (subst e1) simp
  have n: "n = q * p + r" unfolding q_def r_def by (rule div_mult_mod_eq[symmetric])
  have r: "r < p" by (simp add: r_def p_def)
  have nlt: "\<not> n < 2 ^ 53" using assms(1) by simp
  have "round_to_double n =
          (if 2 ^ 1024 \<le> (if h < r \<or> (r = h \<and> odd q) then q + 1 else q) * p then None
           else Some ((if h < r \<or> (r = h \<and> odd q) then q + 1 else q) * p))"
    unfolding round_to_double_def Let_def e_def[symmetric] h_def[symmetric] p_def[symmetric]
      q_def[symmetric] r_def[symmetric]
    using nlt by (simp only: if_False)
  then have d: "d = (if h < r \<or> (r = h \<and> odd q) then q + 1 else q) * p"
    using assms(2) by (simp split: if_splits)
  have goal: "2 * (if d \<le> n then n - d else d - n) \<le> p"
  proof (cases "h < r \<or> (r = h \<and> odd q)")
    case True
    then have dd: "d = q * p + p" using d by (simp add: algebra_simps)
    have hr: "h \<le> r" using True by auto
    show ?thesis using dd n r hr pe by auto
  next
    case False
    then have dd: "d = q * p" using d by auto
    have hr: "r \<le> h" using False by auto
    show ?thesis using dd n hr pe by auto
  qed
  then show ?thesis unfolding p_def e_def .
qed

lemma dropWhile_none: "(\<And>x. x \<in> set xs \<Longrightarrow> \<not> P x) \<Longrightarrow> dropWhile P xs = xs"
  by (cases xs) auto

lemma trim_no_ws:
  assumes "\<And>x. x \<in> set s \<Longrightarrow> \<not> is_ws x"
  shows "trim s = s"
proof -
  have 1: "dropWhile is_ws s = s" using assms by (rule dropWhile_none)
  have 2: "dropWhile is_ws (rev s) = rev s" by (rule dropWhile_none) (simp add: assms)
  show ?thesis by (simp add: trim_def 1 2)
qed






section \<open>Properties of the search services\<close>









text \<open>
  Claim C3. With a non-blank base URL and a non-blank query, a \<open>search\<close> call that finds
  fewer than one remaining token in its class fails with the \<open>RateLimitError\<close>; it has
  neither suspended nor sent a request, and the limiter is the one the pre-check left.
\<close>

theorem search_rate_limited_without_network:
  assumes "trim (searxng_base_url params) \<noteq> []" and "trim (query params) \<noteq> []"
    and "fst (getRemainingTokens rl ''searxng'' t1) < 1"
  shows "search mkurl net rl params t1 t2 t3 =
           (Inl (Err (RateLimitError ''SearXNG search rate limited (30 requests per minute). Try again later or check get_rate_limit_status for remaining tokens.'')),
            snd (getRemainingTokens rl ''searxng'' t1), [])"
  using assms by (simp add: search_def Let_def)

theorem search_rate_limited_without_network_witness:
  "acquire_n 30 (new_SearXNGService new_RateLimiter 1700000000000) ''searxng'' 1700000000000
     = Inr drained_searxng
   \<and> fst (search (\<lambda>p qs. Some p) (\<lambda>rq. Inl (FetchError ''unreachable'')) drained_searxng
            \<lparr>searxng_base_url = ''https://search.example.org'', query = ''isabelle'',
             format = None, categories = None, language = None, pageno = None,
             time_range = None, safesearch = None, max_results = None\<rparr>
            1700000001000 1700000001000 1700000001000)
       = Inl (Err (RateLimitError ''SearXNG search rate limited (30 requests per minute). Try again later or check get_rate_limit_status for remaining tokens.''))
   \<and> snd (snd (search (\<lambda>p qs. Some p) (\<lambda>rq. Inl (FetchError ''unreachable'')) drained_searxng
            \<lparr>searxng_base_url = ''https://search.example.org'', query = ''isabelle'',
             format = None, categories = None, language = None, pageno = None,
             time_range = None, safesearch = None, max_results = None\<rparr>
            1700000001000 1700000001000 1700000001000)) = []"
proof -
  let ?p = "\<lparr>searxng_base_url = ''https://search.example.org'', query = ''isabelle'',
             format = None, categories = None, language = None, pageno = None,
             time_range = None, safesearch = None, max_results = None\<rparr>"
  have r: "acquire_n 30 (new_SearXNGService new_RateLimiter 1700000000000) ''searxng'' 1700000000000
             = Inr drained_searxng"
    by (simp add: eval_nat_numeral acquire_begin_def acquire_resume_def configure_def
          new_SearXNGService_def new_RateLimiter_def get_or_def Let_def drained_searxng_def)
  have h1: "trim (searxng_base_url ?p) \<noteq> []" and h2: "trim (query ?p) \<noteq> []"
    by (simp_all add: trim_def is_ws_def)
  have h3: "fst (getRemainingTokens drained_searxng ''searxng'' 1700000001000) < 1"
    by (simp add: getRemainingTokens_def drained_searxng_def get_or_def Let_def)
  show ?thesis
    using search_rate_limited_without_network[OF h1 h2 h3] r by simp
qed

section \<open>Properties of the fetch primitive\<close>

text \<open>
  Claim C7, as amended. A response whose status is not 300 is returned as it is and nothing
  is sent. A 300 response whose \<open>Location\<close> header is absent or empty fails with the error
  \<open>HTTP 300: Multiple Choices - No Location header provided\<close>, and nothing is sent. A 300
  response with a non-empty \<open>Location\<close> that resolves against the original URL causes
  exactly one request, to the resolved URL with the default headers, and the outcome of
  that request is the result; if the \<open>Location\<close> does not resolve, the call fails with the
  URL constructor's \<open>TypeError\<close> and nothing is sent.
\<close>

theorem follow300Redirect_cases:
  "(status response \<noteq> 300 \<longrightarrow>
      follow300Redirect resolve net response originalUrl = (Inr response, []))
   \<and> (status response = 300 \<and> \<not> truthy_str (headers_get response ''Location'') \<longrightarrow>
      follow300Redirect resolve net response originalUrl
        = (Inl (Err (Error ''HTTP 300: Multiple Choices - No Location header provided'')), []))
   \<and> (status response = 300 \<and> headers_get response ''Location'' = Some location
        \<and> location \<noteq> [] \<and> resolve location originalUrl = Some redirectUrl \<longrightarrow>
      follow300Redirect resolve net response originalUrl
        = (net \<lparr>req_url = redirectUrl, req_headers = DEFAULT_FETCH_HEADERS\<rparr>,
           [\<lparr>req_url = redirectUrl, req_headers = DEFAULT_FETCH_HEADERS\<rparr>]))
   \<and> (status response = 300 \<and> headers_get response ''Location'' = Some location
        \<and> location \<noteq> [] \<and> resolve location originalUrl = None \<longrightarrow>
      follow300Redirect resolve net response originalUrl
        = (Inl (Err (TypeError ''Invalid URL'')), []))"
  by (auto simp: follow300Redirect_def fetchWithTimeout_def truthy_str_def Let_def
           split: option.splits)

text \<open>Three responses to a request for \<open>https://example.org/old\<close>: a 300 pointing to
  \<open>/new\<close>, a 300 without the header, and a 200; the resolver used here only handles a path
  against this one origin.\<close>

theorem follow300Redirect_cases_witness:
  "follow300Redirect (\<lambda>l b. Some (''https://example.org'' @ l))
       (\<lambda>rq. Inr \<lparr>status = 200, statusText = ''OK'', url = req_url rq,
                    headers_get = Map.empty, text_body = ''moved here'', json = None :: unit option\<rparr>)
       \<lparr>status = 300, statusText = ''Multiple Choices'', url = ''https://example.org/old'',
        headers_get = [''Location'' \<mapsto> ''/new''], text_body = [], json = None\<rparr>
       ''https://example.org/old''
     = (Inr \<lparr>status = 200, statusText = ''OK'', url = ''https://example.org/new'',
              headers_get = Map.empty, text_body = ''moved here'', json = None\<rparr>,
        [\<lparr>req_url = ''https://example.org/new'', req_headers = DEFAULT_FETCH_HEADERS\<rparr>])
   \<and> follow300Redirect (\<lambda>l b. Some (''https://example.org'' @ l))
       (\<lambda>rq. Inl (FetchError ''unreachable'') :: failure + unit response)
       \<lparr>status = 300, statusText = ''Multiple Choices'', url = ''https://example.org/old'',
        headers_get = Map.empty, text_body = [], json = None\<rparr>
       ''https://example.org/old''
     = (Inl (Err (Error ''HTTP 300: Multiple Choices - No Location header provided'')), [])
   \<and> follow300Redirect (\<lambda>l b. Some (''https://example.org'' @ l))
       (\<lambda>rq. Inl (FetchError ''unreachable'') :: failure + unit response)
       \<lparr>status = 200, statusText = ''OK'', url = ''https://example.org/old'',
        headers_get = [''Location'' \<mapsto> ''/new''], text_body = ''here'', json = None\<rparr>
       ''https://example.org/old''
     = (Inr \<lparr>status = 200, statusText = ''OK'', url = ''https://example.org/old'',
              headers_get = [''Location'' \<mapsto> ''/new''], text_body = ''here'', json = None\<rparr>, [])"
proof -
  let ?resolve = "\<lambda>(l::string) (b::string). Some (''https://example.org'' @ l)"
  let ?net1 = "\<lambda>rq. Inr \<lparr>status = 200, statusText = ''OK'', url = req_url rq,
                    headers_get = Map.empty, text_body = ''moved here'', json = None :: unit option\<rparr>
                 :: failure + unit response"
  let ?net2 = "\<lambda>rq::request. Inl (FetchError ''unreachable'') :: failure + unit response"
  let ?r1 = "\<lparr>status = 300, statusText = ''Multiple Choices'', url = ''https://example.org/old'',
        headers_get = [''Location'' \<mapsto> ''/new''], text_body = [], json = None :: unit option\<rparr>"
  let ?r2 = "\<lparr>status = 300, statusText = ''Multiple Choices'', url = ''https://example.org/old'',
        headers_get = Map.empty, text_body = [], json = None :: unit option\<rparr>"
  let ?r3 = "\<lparr>status = 200, statusText = ''OK'', url = ''https://example.org/old'',
        headers_get = [''Location'' \<mapsto> ''/new''], text_body = ''here'', json = None :: unit option\<rparr>"
  have a: "follow300Redirect ?resolve ?net1 ?r1 ''https://example.org/old''
             = (?net1 \<lparr>req_url = ''https://example.org/new'', req_headers = DEFAULT_FETCH_HEADERS\<rparr>,
                [\<lparr>req_url = ''https://example.org/new'', req_headers = DEFAULT_FETCH_HEADERS\<rparr>])"
    using follow300Redirect_cases[of ?r1 ?resolve ?net1 "''https://example.org/old''" "''/new''"
            "''https://example.org/new''"]
    by simp
  have b: "follow300Redirect ?resolve ?net2 ?r2 ''https://example.org/old''
             = (Inl (Err (Error ''HTTP 300: Multiple Choices - No Location header provided'')), [])"
    using follow300Redirect_cases[of ?r2 ?resolve ?net2 "''https://example.org/old''" "''/new''"
            "''https://example.org/new''"]
    by (simp add: truthy_str_def)
  have c: "follow300Redirect ?resolve ?net2 ?r3 ''https://example.org/old'' = (Inr ?r3, [])"
    using follow300Redirect_cases[of ?r3 ?resolve ?net2 "''https://example.org/old''" "''/new''"
            "''https://example.org/new''"]
    by simp
  show ?thesis using a b c by simp
qed

text \<open>
  Claim C7 as stated fails for a 300 response that carries a \<open>Location\<close> header with an
  empty value: the header is there, yet no request follows and the call fails as if the
  header were absent.
\<close>

theorem follow300Redirect_empty_location:
  "status \<lparr>status = 300, statusText = ''Multiple Choices'', url = ''https://example.org/old'',
           headers_get = [''Location'' \<mapsto> []], text_body = [], json = None :: unit option\<rparr> = 300
   \<and> headers_get \<lparr>status = 300, statusText = ''Multiple Choices'', url = ''https://example.org/old'',
           headers_get = [''Location'' \<mapsto> []], text_body = [], json = None :: unit option\<rparr>
         ''Location'' = Some []
   \<and> follow300Redirect (\<lambda>l b. Some (b @ l))
       (\<lambda>rq. Inr \<lparr>status = 200, statusText = ''OK'', url = req_url rq,
                    headers_get = Map.empty, text_body = ''same page'', json = None\<rparr>)
       \<lparr>status = 300, statusText = ''Multiple Choices'', url = ''https://example.org/old'',
        headers_get = [''Location'' \<mapsto> []], text_body = [], json = None :: unit option\<rparr>
       ''https://example.org/old''
     = (Inl (Err (Error ''HTTP 300: Multiple Choices - No Location header provided'')), [])"
  by (simp add: follow300Redirect_def)

section \<open>Properties of the sitemap parser\<close>

lemma has_loc_object: "has_loc u l \<Longrightarrow> \<exists>kv. u = XObj kv"
  by (cases u) (simp_all add: has_loc_def)

lemma toUrl_has_loc: "has_loc u l \<Longrightarrow> loc (toUrl u) = l"
  by (simp add: has_loc_def toUrl_def)

lemma toSitemapEntry_has_loc:
  "has_loc u l \<Longrightarrow> \<exists>e. toSitemapEntry u = Some e \<and> entry_loc e = l"
  by (simp add: has_loc_def toSitemapEntry_def)

lemma urls_of_elements:
  "list_all2 has_loc us ls \<Longrightarrow>
     filter (\<lambda>u. loc u \<noteq> []) (map toUrl us) = map toUrl us \<and> map loc (map toUrl us) = ls"
proof (induction rule: list_all2_induct)
  case Nil
  show ?case by simp
next
  case (Cons u us l ls)
  then show ?case using toUrl_has_loc[of u l] by (simp add: has_loc_def)
qed

lemma entries_of_elements:
  "list_all2 has_loc us ls \<Longrightarrow>
     map entry_loc (List.map_filter toSitemapEntry us) = ls
     \<and> length (List.map_filter toSitemapEntry us) = length us"
proof (induction rule: list_all2_induct)
  case Nil
  show ?case by (simp add: List.map_filter_simps)
next
  case (Cons u us l ls)
  then show ?case using toSitemapEntry_has_loc[of u l] by (auto simp: List.map_filter_simps)
qed

lemma as_list_repeated:
  assumes "list_all2 has_loc us ls"
  shows "as_list (get_prop (repeated name us) name) = us"
proof (cases us)
  case Nil
  then show ?thesis by (simp add: repeated_def)
next
  case (Cons u us')
  have "\<exists>kv. u = XObj kv" using assms Cons has_loc_object by (auto simp: list_all2_Cons1)
  then show ?thesis using Cons by (cases us') (auto simp: repeated_def)
qed

lemma usable_repeated: "us \<noteq> [] \<Longrightarrow> usable (Some (repeated name us))"
  by (cases us; cases "tl us") (auto simp: repeated_def usable_def)

lemma usable_None: "\<not> usable None"
  by (simp add: usable_def)

lemma root_value_urlset_document:
  "root_value (urlset_document us) ''urlset'' = Some (repeated ''url'' us)"
  "root_value (urlset_document us) ''sitemapindex'' = None"
  by (simp_all add: root_value_def urlset_document_def)

lemma root_value_sitemapindex_document:
  "root_value (sitemapindex_document us) ''sitemapindex'' = Some (repeated ''sitemap'' us)"
  by (simp add: root_value_def sitemapindex_document_def)

text \<open>
  Claim C6. A urlset document whose \<open><url>\<close> elements each have a non-empty \<open><loc>\<close>
  parses to the urlset variant with one entry for each element, carrying its \<open>loc\<close>, in
  document order; a sitemap index with at least one \<open><sitemap>\<close> child, each with a
  non-empty \<open><loc>\<close>, parses to the sitemapindex variant with exactly those \<open>loc\<close> values
  in order. This holds for any number of entries, in particular for 3 and for 2.
\<close>

theorem parseSitemapXml_preserves_entries:
  assumes "list_all2 has_loc us ls"
  shows "(xml_parse xml = urlset_document us \<longrightarrow>
            parseSitemapXml xml_parse xml = Urlset (map toUrl us)
            \<and> map loc (map toUrl us) = ls
            \<and> length (map toUrl us) = length us)
       \<and> (xml_parse xml = sitemapindex_document us \<and> us \<noteq> [] \<longrightarrow>
            parseSitemapXml xml_parse xml = Sitemapindex (List.map_filter toSitemapEntry us)
            \<and> map entry_loc (List.map_filter toSitemapEntry us) = ls
            \<and> length (List.map_filter toSitemapEntry us) = length us)"
proof -
  have u: "parse_sitemap_object (urlset_document us) = Urlset (map toUrl us)"
  proof (cases "us = []")
    case True
    then show ?thesis
      by (simp add: parse_sitemap_object_def root_value_urlset_document usable_def repeated_def Let_def)
  next
    case False
    then show ?thesis
      using urls_of_elements[OF assms]
      by (simp add: parse_sitemap_object_def root_value_urlset_document usable_repeated
            usable_None toUrlList_def as_list_repeated[OF assms] Let_def)
  qed
  have s: "us \<noteq> [] \<Longrightarrow>
             parse_sitemap_object (sitemapindex_document us)
               = Sitemapindex (List.map_filter toSitemapEntry us)"
    by (simp add: parse_sitemap_object_def root_value_sitemapindex_document usable_repeated
          toSitemapEntries_def as_list_repeated[OF assms] Let_def)
  show ?thesis
    using u s urls_of_elements[OF assms] entries_of_elements[OF assms]
    by (simp add: parseSitemapXml_def)
qed

theorem parseSitemapXml_preserves_entries_witness:
  "parseSitemapXml
     (\<lambda>xml. [(''urlset'', XObj [(''url'',
         XArr [XObj [(''loc'', XStr ''https://example.org/a'')],
               XObj [(''loc'', XStr ''https://example.org/b''), (''lastmod'', XStr ''2024-05-01''),
                     (''priority'', XNum ''0.8'')],
               XObj [(''loc'', XStr ''https://example.org/c'')]])])])
     ''<urlset>...</urlset>''
   = Urlset [\<lparr>loc = ''https://example.org/a'', lastmod = None, changefreq = None, priority = None\<rparr>,
             \<lparr>loc = ''https://example.org/b'', lastmod = Some (XStr ''2024-05-01''),
              changefreq = None, priority = None\<rparr>,
             \<lparr>loc = ''https://example.org/c'', lastmod = None, changefreq = None, priority = None\<rparr>]
   \<and> parseSitemapXml
     (\<lambda>xml. [(''sitemapindex'', XObj [(''sitemap'',
         XArr [XObj [(''loc'', XStr ''https://example.org/s1.xml'')],
               XObj [(''loc'', XStr ''https://example.org/s2.xml'')]])])])
     ''<sitemapindex>...</sitemapindex>''
   = Sitemapindex [\<lparr>entry_loc = ''https://example.org/s1.xml'', entry_lastmod = None\<rparr>,
                   \<lparr>entry_loc = ''https://example.org/s2.xml'', entry_lastmod = None\<rparr>]"
proof -
  let ?us = "[XObj [(''loc'', XStr ''https://example.org/a'')],
               XObj [(''loc'', XStr ''https://example.org/b''), (''lastmod'', XStr ''2024-05-01''),
                     (''priority'', XNum ''0.8'')],
               XObj [(''loc'', XStr ''https://example.org/c'')]]"
  let ?ss = "[XObj [(''loc'', XStr ''https://example.org/s1.xml'')],
               XObj [(''loc'', XStr ''https://example.org/s2.xml'')]]"
  let ?p1 = "\<lambda>xml::string. [(''urlset'', XObj [(''url'', XArr ?us)])]"
  let ?p2 = "\<lambda>xml::string. [(''sitemapindex'', XObj [(''sitemap'', XArr ?ss)])]"
  have h1: "list_all2 has_loc ?us
              [''https://example.org/a'', ''https://example.org/b'', ''https://example.org/c'']"
    and h2: "list_all2 has_loc ?ss [''https://example.org/s1.xml'', ''https://example.org/s2.xml'']"
    by (simp_all add: has_loc_def)
  have d1: "?p1 ''<urlset>...</urlset>'' = urlset_document ?us"
    by (simp add: urlset_document_def repeated_def)
  have d2: "?p2 ''<sitemapindex>...</sitemapindex>'' = sitemapindex_document ?ss"
    by (simp add: sitemapindex_document_def repeated_def)
  have a: "parseSitemapXml ?p1 ''<urlset>...</urlset>'' = Urlset (map toUrl ?us)"
    using parseSitemapXml_preserves_entries[OF h1, of ?p1 "''<urlset>...</urlset>''"] d1 by blast
  have b: "parseSitemapXml ?p2 ''<sitemapindex>...</sitemapindex>''
             = Sitemapindex (List.map_filter toSitemapEntry ?ss)"
    using parseSitemapXml_preserves_entries[OF h2, of ?p2 "''<sitemapindex>...</sitemapindex>''"] d2
    by blast
  show ?thesis
    unfolding a b by (simp add: toUrl_def toSitemapEntry_def List.map_filter_simps)
qed

lemma toSitemapEntry_loc: "toSitemapEntry s = Some e \<Longrightarrow> entry_loc e \<noteq> []"
  by (auto simp: toSitemapEntry_def Let_def split: option.splits xv.splits if_splits)

text \<open>
  Claim C10, as amended. \<open>parseSitemapXml\<close> is total on what the parser returns and yields
  one of the two variants. If the value found for the sitemapindex root is an object or an
  array, the result is the sitemapindex variant (whatever is found for urlset), holding the
  children that have a non-empty string \<open>loc\<close>. Otherwise, if the value found for the
  urlset root is an object or an array, the result is the urlset variant, holding the
  entries whose \<open>loc\<close> is non-empty. In every other case, which includes a sitemapindex or
  urlset root that is empty or holds only text, the result is the urlset variant with the
  empty list.
\<close>

theorem parseSitemapXml_variants:
  "(usable (root_value (xml_parse xml) ''sitemapindex'') \<longrightarrow>
      (\<exists>v. root_value (xml_parse xml) ''sitemapindex'' = Some v
         \<and> parseSitemapXml xml_parse xml = Sitemapindex (toSitemapEntries v)
         \<and> (\<forall>e \<in> set (toSitemapEntries v). entry_loc e \<noteq> [])))
   \<and> (\<not> usable (root_value (xml_parse xml) ''sitemapindex'')
        \<and> usable (root_value (xml_parse xml) ''urlset'') \<longrightarrow>
      (\<exists>v. root_value (xml_parse xml) ''urlset'' = Some v
         \<and> parseSitemapXml xml_parse xml
             = Urlset (filter (\<lambda>u. loc u \<noteq> []) (map toUrl (as_list (get_prop v ''url''))))
         \<and> (\<forall>u \<in> set (toUrlList v). loc u \<noteq> [])))
   \<and> (\<not> usable (root_value (xml_parse xml) ''sitemapindex'')
        \<and> \<not> usable (root_value (xml_parse xml) ''urlset'') \<longrightarrow>
      parseSitemapXml xml_parse xml = Urlset [])"
proof -
  have e: "\<And>v. \<forall>e \<in> set (toSitemapEntries v). entry_loc e \<noteq> []"
    by (auto simp: toSitemapEntries_def List.map_filter_def dest: toSitemapEntry_loc)
  have u: "\<And>v. \<forall>u \<in> set (toUrlList v). loc u \<noteq> []"
    by (simp add: toUrlList_def)
  show ?thesis
  proof (cases "usable (root_value (xml_parse xml) ''sitemapindex'')")
    case True
    then obtain v where "root_value (xml_parse xml) ''sitemapindex'' = Some v"
      by (auto simp: usable_def split: option.splits)
    then show ?thesis
      using True e by (simp add: parseSitemapXml_def parse_sitemap_object_def Let_def)
  next
    case si: False
    show ?thesis
    proof (cases "usable (root_value (xml_parse xml) ''urlset'')")
      case True
      then obtain v where "root_value (xml_parse xml) ''urlset'' = Some v"
        by (auto simp: usable_def split: option.splits)
      then show ?thesis
        using True si u
        by (simp add: parseSitemapXml_def parse_sitemap_object_def Let_def toUrlList_def)
    next
      case False
      then show ?thesis
        using si by (simp add: parseSitemapXml_def parse_sitemap_object_def Let_def)
    qed
  qed
qed

theorem parseSitemapXml_variants_witness:
  "parseSitemapXml
     (\<lambda>xml. [(''urlset'', XObj [(''url'', XObj [(''loc'', XStr ''https://example.org/a'')])]),
              (''sitemapindex'', XObj [(''sitemap'', XObj [(''loc'', XStr ''https://example.org/s.xml'')])])])
     ''both roots''
   = Sitemapindex [\<lparr>entry_loc = ''https://example.org/s.xml'', entry_lastmod = None\<rparr>]
   \<and> parseSitemapXml
     (\<lambda>xml. [(''urlset'', XObj [(''url'', XArr [XObj [(''loc'', XStr ''https://example.org/a'')],
                                                  XObj [(''lastmod'', XStr ''2024-05-01'')],
                                                  XObj [(''loc'', XStr [])]])])])
     ''one entry without loc, one with an empty loc''
   = Urlset [\<lparr>loc = ''https://example.org/a'', lastmod = None, changefreq = None, priority = None\<rparr>]
   \<and> parseSitemapXml (\<lambda>xml. [(''rss'', XObj [(''channel'', XStr ''news'')])]) ''neither root''
   = Urlset []"
proof -
  let ?p1 = "\<lambda>xml::string.
      [(''urlset'', XObj [(''url'', XObj [(''loc'', XStr ''https://example.org/a'')])]),
       (''sitemapindex'', XObj [(''sitemap'', XObj [(''loc'', XStr ''https://example.org/s.xml'')])])]"
  let ?p2 = "\<lambda>xml::string.
      [(''urlset'', XObj [(''url'', XArr [XObj [(''loc'', XStr ''https://example.org/a'')],
                                           XObj [(''lastmod'', XStr ''2024-05-01'')],
                                           XObj [(''loc'', XStr [])]])])]"
  let ?p3 = "\<lambda>xml::string. [(''rss'', XObj [(''channel'', XStr ''news'')])]"
  have a: "parseSitemapXml ?p1 ''both roots''
             = Sitemapindex [\<lparr>entry_loc = ''https://example.org/s.xml'', entry_lastmod = None\<rparr>]"
    using parseSitemapXml_variants[of ?p1 "''both roots''"]
    by (simp add: root_value_def usable_def toSitemapEntries_def toSitemapEntry_def
          List.map_filter_simps)
  have b: "parseSitemapXml ?p2 ''one entry without loc, one with an empty loc''
             = Urlset [\<lparr>loc = ''https://example.org/a'', lastmod = None, changefreq = None,
                        priority = None\<rparr>]"
    using parseSitemapXml_variants[of ?p2 "''one entry without loc, one with an empty loc''"]
    by (simp add: root_value_def usable_def toUrl_def)
  have c: "parseSitemapXml ?p3 ''neither root'' = Urlset []"
    using parseSitemapXml_variants[of ?p3 "''neither root''"]
    by (simp add: root_value_def usable_def)
  show ?thesis using a b c by simp
qed

text \<open>
  Claim C10 as stated fails for a sitemap index without children: the parser returns the
  empty string for the empty \<open><sitemapindex>\<close> element, the root is present, and the
  result is the urlset variant.
\<close>

theorem parseSitemapXml_empty_sitemapindex:
  "map_of [(''sitemapindex'', XStr [])] ''sitemapindex'' = Some (XStr [])
   \<and> parseSitemapXml (\<lambda>xml. [(''sitemapindex'', XStr [])]) ''<sitemapindex></sitemapindex>''
       = Urlset []"
  by (simp add: parseSitemapXml_def parse_sitemap_object_def root_value_def usable_def)

section \<open>Searching backwards and cutting\<close>

lemma lastIndexOf_lower: "- 1 \<le> lastIndexOf s pat"
  by (induction s) (auto simp: Let_def)

lemma lastIndexOf_upper: "pat \<noteq> [] \<Longrightarrow> lastIndexOf s pat < int (length s)"
  by (induction s) (auto simp: Let_def)

lemma lastIndexOf_occurs:
  "0 \<le> lastIndexOf s pat \<Longrightarrow> occurs_at pat s (nat (lastIndexOf s pat))"
proof (induction s)
  case Nil
  then show ?case by (auto simp: occurs_at_def split: if_splits)
next
  case (Cons c cs)
  show ?case
  proof (cases "0 \<le> lastIndexOf cs pat")
    case True
    then have "occurs_at pat cs (nat (lastIndexOf cs pat))" by (rule Cons.IH)
    moreover have "nat (lastIndexOf cs pat + 1) = Suc (nat (lastIndexOf cs pat))"
      using True by simp
    ultimately show ?thesis using True by (simp add: occurs_at_def Let_def)
  next
    case False
    then show ?thesis using Cons.prems by (auto simp: occurs_at_def Let_def split: if_splits)
  qed
qed

lemma lastIndexOf_last: "occurs_at pat s j \<Longrightarrow> int j \<le> lastIndexOf s pat"
proof (induction s arbitrary: j)
  case Nil
  then show ?case by (auto simp: occurs_at_def)
next
  case (Cons c cs)
  show ?case
  proof (cases j)
    case 0
    then show ?thesis using Cons.prems lastIndexOf_lower[of cs pat]
      by (auto simp: occurs_at_def Let_def)
  next
    case (Suc j')
    then have "occurs_at pat cs j'" using Cons.prems by (simp add: occurs_at_def)
    then have "int j' \<le> lastIndexOf cs pat" by (rule Cons.IH)
    then show ?thesis using Suc by (simp add: Let_def)
  qed
qed

lemma lastIndexOf_absent:
  assumes "pat = p # ps" "p \<notin> set s"
  shows "lastIndexOf s pat = - 1"
  using assms(2) by (induction s) (auto simp: assms(1) Let_def)

lemma truncate_text_short: "length t \<le> 50000 \<Longrightarrow> truncate_text t = t"
  by (simp add: truncate_text_def MAX_TEXT_LEN_def)

lemma cut_point_bound:
  "max (lastIndexOf (take 50000 t) ''.'') (lastIndexOf (take 50000 t) [NL, NL]) < 50000"
proof -
  have "lastIndexOf (take 50000 t) ''.'' < int (length (take 50000 t))"
    "lastIndexOf (take 50000 t) [NL, NL] < int (length (take 50000 t))"
    by (rule lastIndexOf_upper, simp)+
  moreover have "int (length (take 50000 t)) \<le> 50000" by simp
  ultimately show ?thesis by linarith
qed

lemma truncate_text_long:
  assumes "50000 < length t"
  shows "truncate_text t =
           take (if 40000 < max (lastIndexOf (take 50000 t) ''.'') (lastIndexOf (take 50000 t) [NL, NL])
                 then nat (max (lastIndexOf (take 50000 t) ''.'') (lastIndexOf (take 50000 t) [NL, NL]))
                 else 50000) t
           @ [NL, NL] @ ''[Content truncated...]''"
proof -
  have "nat (max (lastIndexOf (take 50000 t) ''.'') (lastIndexOf (take 50000 t) [NL, NL])) \<le> 50000"
    using cut_point_bound[of t] by linarith
  then show ?thesis
    using assms by (simp add: truncate_text_def MAX_TEXT_LEN_def Let_def min_absorb2)
qed

lemma truncate_text_length:
  assumes "50000 < length t"
  shows "length (truncate_text t) \<le> 50024"
proof -
  have b: "nat (max (lastIndexOf (take 50000 t) ''.'') (lastIndexOf (take 50000 t) [NL, NL])) < 50000"
    using cut_point_bound[of t] by linarith
  show "length (truncate_text t) \<le> 50024"
    using assms b by (simp add: truncate_text_long)
qed

lemma truncate_text_marker:
  assumes "50000 < length t"
  shows "suffix ''[Content truncated...]'' (truncate_text t)"
proof -
  have "truncate_text t = (take (if 40000 < max (lastIndexOf (take 50000 t) ''.'') (lastIndexOf (take 50000 t) [NL, NL])
                 then nat (max (lastIndexOf (take 50000 t) ''.'') (lastIndexOf (take 50000 t) [NL, NL]))
                 else 50000) t
           @ [NL, NL]) @ ''[Content truncated...]''"
    using assms by (simp add: truncate_text_long)
  then show ?thesis by (metis suffixI)
qed

subsection \<open>Pages that are one long run of text\<close>

lemma split_on_absent: "c \<notin> set s \<Longrightarrow> split_on c s = [s]"
  by (induction s) auto

lemma collapse_newlines_absent: "NL \<notin> set s \<Longrightarrow> collapse_newlines 0 s = s"
  by (induction s) auto

lemma ci_match_length: "ci_match a b \<Longrightarrow> length a = length b"
  by (induction a b rule: ci_match.induct) auto

lemma nav_word_short: "is_nav_word line \<Longrightarrow> length line \<le> 8"
  by (auto simp: is_nav_word_def dest: ci_match_length)

lemma clean_text_plain:
  assumes "\<And>x. x \<in> set s \<Longrightarrow> \<not> is_ws x" "8 < length s"
  shows "clean_text s = s"
proof -
  have nl: "NL \<notin> set s" using assms(1) by (auto simp: is_ws_def NL_def)
  have nw: "\<not> is_nav_word s" using assms(2) nav_word_short[of s] by auto
  have ne: "s \<noteq> []" using assms(2) by auto
  show ?thesis
    using assms(2) nw ne
    by (simp add: clean_text_def split_on_absent[OF nl] trim_no_ws[OF assms(1)]
          collapse_newlines_absent[OF nl])
qed

lemma text_page_content:
  "textContent (parse_document serialize (text_page s) u) = truncate_text (clean_text s)"
  by (simp add: parse_document_def text_page_def stripped_def remove_comments_def main_content_def
        select_def first_def is_main_def is_content_class_def has_tag_def has_class_def
        attr_contains_def is_chrome_def Let_def)

lemma truncate_text_replicate:
  assumes "50000 < n" "c \<noteq> CHR ''.''" "c \<noteq> NL"
  shows "truncate_text (replicate n c) = replicate 50000 c @ [NL, NL] @ ''[Content truncated...]''"
proof -
  have t: "take 50000 (replicate n c) = replicate 50000 c"
    using assms(1) by simp
  have a: "lastIndexOf (replicate 50000 c) ''.'' = - 1"
    by (rule lastIndexOf_absent[where p = "CHR ''.''" and ps = "[]"]) (use assms(2) in auto)
  have b: "lastIndexOf (replicate 50000 c) [NL, NL] = - 1"
    by (rule lastIndexOf_absent[where p = NL and ps = "[NL]"]) (use assms(3) in auto)
  have "truncate_text (replicate n c) = take 50000 (replicate n c) @ [NL, NL] @ ''[Content truncated...]''"
    using assms(1) unfolding truncate_text_long[of "replicate n c", simplified, OF assms(1)] t a b
    by simp
  then show ?thesis by (simp only: t)
qed

lemma lastIndexOf_char:
  "c \<notin> set ys \<Longrightarrow> lastIndexOf (xs @ c # ys) [c] = int (length xs)"
proof (induction xs)
  case Nil
  then have "lastIndexOf ys [c] = - 1"
    by (intro lastIndexOf_absent[where p = c and ps = "[]"]) simp_all
  then show ?case by (simp add: Let_def)
next
  case (Cons x xs)
  then show ?case by (simp add: Let_def)
qed


subsection \<open>Removing elements\<close>

lemma stripped_blank: "stripped (blank n) = stripped n"
  by (cases n) (simp_all add: stripped_def has_class_def attr_contains_def)

lemma stripped_children: "stripped (Element t as cs) = stripped (Element t as [])"
  by (simp add: stripped_def has_class_def attr_contains_def)

lemma not_stripped_tag:
  "\<not> stripped (Element t as cs) \<Longrightarrow> t \<noteq> ''script'' \<and> t \<noteq> ''style'' \<and> t \<noteq> ''noscript''"
  by (auto simp: stripped_def)

lemma remove_where_blank:
  "\<not> stripped n \<Longrightarrow> remove_where stripped (blank n) = remove_where stripped n"
  "remove_where_list stripped (blank_list ns) = remove_where_list stripped ns"
  by (induction n and ns rule: blank_blank_list.induct)
     (auto simp: stripped_blank dest: not_stripped_tag)

lemma elems_remove_where:
  "n \<in> set (elems (remove_where stripped m)) \<Longrightarrow> \<not> stripped m \<Longrightarrow> \<not> stripped n"
  "n \<in> set (elems_list (remove_where_list stripped ms)) \<Longrightarrow> \<not> stripped n"
proof (induction stripped m and stripped ms rule: remove_where_remove_where_list.induct)
  case (1 t as cs)
  then show ?case using stripped_children[of t as cs] stripped_children[of t as "remove_where_list stripped cs"]
    by auto
next
  case (5 m ms)
  then show ?case by (auto split: if_splits)
qed simp_all

lemma elems_are_elements:
  "n \<in> set (elems m) \<Longrightarrow> is_element n"
  "n \<in> set (elems_list ms) \<Longrightarrow> is_element n"
  by (induction m and ms rule: elems_elems_list.induct) auto

lemma script_page_blank:
  "blank_list script_page
     = [Element ''html'' []
          [Element ''head'' [] [Element ''script'' [] []],
           Element ''body'' [] [Element ''p'' [] [Text ''Hello world is long enough'']]]]"
  by (simp add: script_page_def)

lemma script_free_text:
  "textContent (parse_document serialize
      [Element ''html'' []
          [Element ''head'' [] [Element ''script'' [] []],
           Element ''body'' [] [Element ''p'' [] [Text ''Hello world is long enough'']]]] u)
   = ''Hello world is long enough''"
  by (simp add: parse_document_def stripped_def remove_comments_def main_content_def
        select_def first_def is_main_def is_content_class_def has_tag_def has_class_def
        attr_contains_def is_chrome_def Let_def clean_text_def NL_def trim_def is_ws_def
        is_nav_word_def upper_of_def truncate_text_def MAX_TEXT_LEN_def)


section \<open>Properties of the HTML extractor\<close>

text \<open>
  Claim C4, as amended. The text content that \<open>parseHtmlToContent\<close> returns is the cleaned
  text of the main content passed through the truncation step. Cleaned text of at most
  50,000 characters is returned unchanged. Longer text is cut and followed by a blank line
  and the marker \<open>[Content truncated...]\<close>: with \<open>cp\<close> the later of the last full stop and the
  last paragraph break that start within the first 50,000 characters, the cut is at \<open>cp\<close>
  when \<open>cp\<close> lies after position 40,000 and at exactly 50,000 otherwise; the result ends
  with the marker and has at most 50,000 characters plus the 24 characters appended.
\<close>

theorem truncation_of_text_content:
  "textContent (parseHtmlToContent load serialize html finalUrl)
     = truncate_text (clean_text (text_list
         (main_content (remove_comments (remove_where_list stripped (load html))))))
   \<and> (length t \<le> 50000 \<longrightarrow> truncate_text t = t)
   \<and> (50000 < length t \<longrightarrow>
        truncate_text t
          = take (if 40000 < max (lastIndexOf (take 50000 t) ''.'') (lastIndexOf (take 50000 t) [NL, NL])
                  then nat (max (lastIndexOf (take 50000 t) ''.'') (lastIndexOf (take 50000 t) [NL, NL]))
                  else 50000) t
            @ [NL, NL] @ ''[Content truncated...]''
        \<and> suffix ''[Content truncated...]'' (truncate_text t)
        \<and> length (truncate_text t) \<le> 50000 + length ([NL, NL] @ ''[Content truncated...]'')
        \<and> length ([NL, NL] @ ''[Content truncated...]'') = 24)
   \<and> (0 \<le> lastIndexOf (take 50000 t) pat \<longrightarrow>
        occurs_at pat (take 50000 t) (nat (lastIndexOf (take 50000 t) pat)))
   \<and> (occurs_at pat (take 50000 t) j \<longrightarrow> int j \<le> lastIndexOf (take 50000 t) pat)"
proof -
  have a: "textContent (parseHtmlToContent load serialize html finalUrl)
     = truncate_text (clean_text (text_list
         (main_content (remove_comments (remove_where_list stripped (load html))))))"
    by (simp add: parseHtmlToContent_def parse_document_def Let_def)
  have b: "length t \<le> 50000 \<longrightarrow> truncate_text t = t"
    by (simp add: truncate_text_short)
  have c: "50000 < length t \<longrightarrow>
        truncate_text t
          = take (if 40000 < max (lastIndexOf (take 50000 t) ''.'') (lastIndexOf (take 50000 t) [NL, NL])
                  then nat (max (lastIndexOf (take 50000 t) ''.'') (lastIndexOf (take 50000 t) [NL, NL]))
                  else 50000) t
            @ [NL, NL] @ ''[Content truncated...]''"
    using truncate_text_long by blast
  have d: "50000 < length t \<longrightarrow> suffix ''[Content truncated...]'' (truncate_text t)"
    using truncate_text_marker by blast
  have e: "50000 < length t \<longrightarrow>
             length (truncate_text t) \<le> 50000 + length ([NL, NL] @ ''[Content truncated...]'')"
    using truncate_text_length[of t] by simp
  have f: "length ([NL, NL] @ ''[Content truncated...]'') = 24"
    by simp
  have g: "0 \<le> lastIndexOf (take 50000 t) pat \<longrightarrow>
        occurs_at pat (take 50000 t) (nat (lastIndexOf (take 50000 t) pat))"
    using lastIndexOf_occurs by blast
  have h: "occurs_at pat (take 50000 t) j \<longrightarrow> int j \<le> lastIndexOf (take 50000 t) pat"
    using lastIndexOf_last by blast
  show ?thesis using a b c d e f g h by blast
qed


text \<open>A page of 45,000 letters, a full stop and 6,000 more letters is cut before the full
  stop; a page of three words is returned as it is.\<close>

theorem truncation_of_text_content_witness:
  "truncate_text (replicate 45000 CHR ''a'' @ ''.'' @ replicate 6000 CHR ''b'')
     = replicate 45000 CHR ''a'' @ [NL, NL] @ ''[Content truncated...]''
   \<and> truncate_text ''Hello world again'' = ''Hello world again''"
proof -
  let ?t = "replicate 45000 CHR ''a'' @ ''.'' @ replicate 6000 CHR ''b''"
  let ?cut = "take (if 40000 < max (lastIndexOf (take 50000 ?t) ''.'') (lastIndexOf (take 50000 ?t) [NL, NL])
                  then nat (max (lastIndexOf (take 50000 ?t) ''.'') (lastIndexOf (take 50000 ?t) [NL, NL]))
                  else 50000) ?t
            @ [NL, NL] @ ''[Content truncated...]''"
  have len: "50000 < length ?t" by simp
  have tk: "take 50000 ?t = replicate 45000 CHR ''a'' @ CHR ''.'' # replicate 4999 CHR ''b''" by simp
  have a: "lastIndexOf (replicate 45000 CHR ''a'' @ CHR ''.'' # replicate 4999 CHR ''b'') ''.'' = 45000"
    using lastIndexOf_char[of "CHR ''.''" "replicate 4999 CHR ''b''" "replicate 45000 CHR ''a''"]
    by simp
  have b: "lastIndexOf (replicate 45000 CHR ''a'' @ CHR ''.'' # replicate 4999 CHR ''b'') [NL, NL] = - 1"
    by (rule lastIndexOf_absent[where p = NL and ps = "[NL]"]) (auto simp: NL_def)
  have long: "50000 < length ?t \<longrightarrow>
        truncate_text ?t = ?cut
        \<and> suffix ''[Content truncated...]'' (truncate_text ?t)
        \<and> length (truncate_text ?t) \<le> 50000 + length ([NL, NL] @ ''[Content truncated...]'')
        \<and> length ([NL, NL] @ ''[Content truncated...]'') = 24"
    by (rule conjunct1[OF conjunct2[OF conjunct2[OF truncation_of_text_content]]])
  from long len have "truncate_text ?t = ?cut
        \<and> suffix ''[Content truncated...]'' (truncate_text ?t)
        \<and> length (truncate_text ?t) \<le> 50000 + length ([NL, NL] @ ''[Content truncated...]'')
        \<and> length ([NL, NL] @ ''[Content truncated...]'') = 24"
    by (rule mp)
  then have "truncate_text ?t = ?cut" by (rule conjunct1)
  then have 1: "truncate_text ?t = replicate 45000 CHR ''a'' @ [NL, NL] @ ''[Content truncated...]''"
    unfolding tk a b by simp
  have short: "length ''Hello world again'' \<le> 50000 \<longrightarrow>
                 truncate_text ''Hello world again'' = ''Hello world again''"
    by (rule conjunct1[OF conjunct2[OF truncation_of_text_content]])
  have 2: "truncate_text ''Hello world again'' = ''Hello world again''"
    using short by simp
  show ?thesis using 1 2 by (rule conjI)
qed

text \<open>
  Claim C4 as stated bounds the text by 50,000 characters plus the length of the marker
  \<open>[Content truncated...]\<close>, which is 22. A page whose text is 50,001 letters \<open>a\<close> has no
  full stop and no paragraph break, is cut at 50,000 and gets the blank line and the marker
  appended: 50,024 characters.
\<close>

theorem truncated_text_exceeds_marker_bound:
  "length (textContent (parseHtmlToContent text_page (\<lambda>ns. []) (replicate 50001 CHR ''a'')
                          ''https://example.org/long'')) = 50024
   \<and> 50000 + length ''[Content truncated...]'' = (50022 :: nat)"
proof -
  have nw: "\<And>x. x \<in> set (replicate 50001 CHR ''a'') \<Longrightarrow> \<not> is_ws x"
    by (auto simp: is_ws_def)
  have "clean_text (replicate 50001 CHR ''a'') = replicate 50001 CHR ''a''"
    by (rule clean_text_plain[OF nw]) simp_all
  then have "textContent (parseHtmlToContent text_page (\<lambda>ns. []) (replicate 50001 CHR ''a'')
                          ''https://example.org/long'')
               = truncate_text (replicate 50001 CHR ''a'')"
    by (simp add: parseHtmlToContent_def text_page_content)
  also have "\<dots> = replicate 50000 CHR ''a'' @ [NL, NL] @ ''[Content truncated...]''"
    by (rule truncate_text_replicate) (simp_all add: NL_def)
  finally show ?thesis by simp
qed

text \<open>
  Claim C5. What \<open>parseHtmlToContent\<close> returns does not depend on anything inside
  \<open>script\<close>, \<open>style\<close> or \<open>noscript\<close> elements: two pages whose trees differ only inside
  such elements give the same title, content and text. The tree the text is taken from holds
  no element of these three kinds.
\<close>

theorem script_content_never_extracted:
  assumes "blank_list (load html) = blank_list (load html')"
  shows "parseHtmlToContent load serialize html finalUrl
           = parseHtmlToContent load serialize html' finalUrl
       \<and> (\<forall>n \<in> set (elems_list (remove_where_list stripped (load html))).
             tag n \<notin> set [''script'', ''style'', ''noscript''])"
proof -
  have "remove_where_list stripped (load html) = remove_where_list stripped (blank_list (load html))"
    by (simp add: remove_where_blank(2))
  also have "\<dots> = remove_where_list stripped (load html')"
    by (simp add: assms remove_where_blank(2))
  finally have a: "parseHtmlToContent load serialize html finalUrl
                     = parseHtmlToContent load serialize html' finalUrl"
    by (simp add: parseHtmlToContent_def parse_document_def)
  have b: "\<forall>n \<in> set (elems_list (remove_where_list stripped (load html))).
             tag n \<notin> set [''script'', ''style'', ''noscript'']"
  proof
    fix n assume n: "n \<in> set (elems_list (remove_where_list stripped (load html)))"
    then have ns: "\<not> stripped n" by (rule elems_remove_where(2))
    have "is_element n" using n by (rule elems_are_elements(2))
    then show "tag n \<notin> set [''script'', ''style'', ''noscript'']"
      using ns by (auto simp: stripped_def)
  qed
  show ?thesis using a b by blast
qed

text \<open>The page of the example, with the parser's tree for it supplied as \<open>script_page\<close>.\<close>

theorem script_content_never_extracted_witness:
  "textContent (parseHtmlToContent
       (\<lambda>h. if h = ''<script>malicious()</script><p>Hello world is long enough</p>''
            then script_page else blank_list script_page)
       (\<lambda>ns. [])
       ''<script>malicious()</script><p>Hello world is long enough</p>''
       ''https://example.org/page'')
     = ''Hello world is long enough''
   \<and> str_includes ''Hello world is long enough'' ''malicious()'' = False"
proof -
  let ?load = "\<lambda>h. if h = ''<script>malicious()</script><p>Hello world is long enough</p>''
            then script_page else blank_list script_page"
  have same: "blank_list (?load ''<script>malicious()</script><p>Hello world is long enough</p>'')
                = blank_list (?load ''<script></script><p>Hello world is long enough</p>'')"
    by (simp add: script_page_def)
  have "parseHtmlToContent ?load (\<lambda>ns. []) ''<script>malicious()</script><p>Hello world is long enough</p>''
            ''https://example.org/page''
          = parseHtmlToContent ?load (\<lambda>ns. []) ''<script></script><p>Hello world is long enough</p>''
            ''https://example.org/page''"
    using script_content_never_extracted[of ?load
            "''<script>malicious()</script><p>Hello world is long enough</p>''"
            "''<script></script><p>Hello world is long enough</p>''", OF same]
    by (rule conjunct1)
  also have "\<dots> = parse_document (\<lambda>ns. []) (blank_list script_page) ''https://example.org/page''"
    by (simp add: parseHtmlToContent_def)
  finally have "textContent (parseHtmlToContent ?load (\<lambda>ns. [])
                  ''<script>malicious()</script><p>Hello world is long enough</p>''
                  ''https://example.org/page'') = ''Hello world is long enough''"
    by (simp only: script_page_blank script_free_text)
  moreover have "str_includes ''Hello world is long enough'' ''malicious()'' = False"
    by simp
  ultimately show ?thesis by (rule conjI)
qed

section \<open>Properties of fetchUrl\<close>

lemma fetchUrl_success:
  fixes net :: "request \<Rightarrow> failure + 'j response"
  assumes "fst (fetchUrl href resolve net load serialize rl u t1 t2) = Inr result"
  shows "\<exists>rl1 w h. \<exists>response0 response :: 'j response.
           acquire rl ''fetch'' t1 t2 = Inr (rl1, w)
           \<and> href (cleanUrl href u) = Some h
           \<and> net \<lparr>req_url = cleanUrl href u, req_headers = DEFAULT_FETCH_HEADERS\<rparr> = Inr response0
           \<and> fst (follow300Redirect resolve net response0 (cleanUrl href u)) = Inr response
           \<and> ok response
           \<and> result = fetchUrl_dispatch load serialize response (cleanUrl href u)"
  using assms
  by (auto simp: fetchUrl_def fetchWithTimeout_def Let_def
           split: sum.splits option.splits prod.splits if_splits)

lemma fetchUrl_of_response:
  fixes net :: "request \<Rightarrow> failure + 'j response"
  assumes "acquire rl ''fetch'' t1 t2 = Inr (rl1, w)"
    and "href (cleanUrl href u) = Some h"
    and "net \<lparr>req_url = cleanUrl href u, req_headers = DEFAULT_FETCH_HEADERS\<rparr> = Inr response0"
    and "fst (follow300Redirect resolve net response0 (cleanUrl href u)) = Inr response"
    and "ok response"
  shows "fst (fetchUrl href resolve net load serialize rl u t1 t2)
           = Inr (fetchUrl_dispatch load serialize response (cleanUrl href u))"
  using assms by (simp add: fetchUrl_def fetchWithTimeout_def Let_def)

text \<open>
  Claim C8, as amended. A \<open>fetchUrl\<close> call succeeds exactly when the limiter admits it,
  the URL parses, the request for the normalized URL is answered, the answer (or, for a
  300, the answer to the one redirected request) arrives and has a 2xx status; the result
  is then the dispatch on the content type of that very response. The content type is
  tested by case-sensitive substring search. If it contains neither \<open>text/html\<close> nor
  \<open>text/plain\<close>, the result has empty content and the text
  \<open>Content type ... is not supported. Only HTML and plain text are supported.\<close>
  If it contains \<open>text/plain\<close>, whether or not it also contains \<open>text/html\<close>, content
  and text are both the first 50,000 characters of the body. If it contains \<open>text/html\<close>
  and not \<open>text/plain\<close>, title, content and text are those of \<open>parseHtmlToContent\<close> on
  the body and the final URL.
\<close>

theorem fetchUrl_content_type_dispatch:
  fixes response :: "'j response" and normalized :: string
    and net :: "request \<Rightarrow> failure + 'j response"
    and load :: "string \<Rightarrow> node list" and serialize :: "node list \<Rightarrow> string"
  defines "ct \<equiv> str_or (headers_get response ''content-type'') []"
    and "finalUrl \<equiv> (if url response = [] then normalized else url response)"
    and "D \<equiv> fetchUrl_dispatch load serialize response normalized"
  shows "(acquire rl ''fetch'' t1 t2 = Inr (rl1, w)
            \<and> href (cleanUrl href u) = Some h
            \<and> net \<lparr>req_url = cleanUrl href u, req_headers = DEFAULT_FETCH_HEADERS\<rparr> = Inr response0
            \<and> fst (follow300Redirect resolve net response0 (cleanUrl href u)) = Inr response
            \<and> ok response \<longrightarrow>
          fst (fetchUrl href resolve net load serialize rl u t1 t2)
            = Inr (fetchUrl_dispatch load serialize response (cleanUrl href u)))
       \<and> (fst (fetchUrl href resolve net load serialize rl u t1 t2) = Inr result \<longrightarrow>
          (\<exists>a v g. \<exists>r0 r :: 'j response.
              acquire rl ''fetch'' t1 t2 = Inr (a, v)
              \<and> href (cleanUrl href u) = Some g
              \<and> net \<lparr>req_url = cleanUrl href u, req_headers = DEFAULT_FETCH_HEADERS\<rparr> = Inr r0
              \<and> fst (follow300Redirect resolve net r0 (cleanUrl href u)) = Inr r
              \<and> ok r
              \<and> result = fetchUrl_dispatch load serialize r (cleanUrl href u)))
       \<and> (\<not> str_includes ct ''text/html'' \<and> \<not> str_includes ct ''text/plain'' \<longrightarrow>
            content D = []
            \<and> textContent D = ''Content type '' @ ct
                 @ '' is not supported. Only HTML and plain text are supported.'')
       \<and> (str_includes ct ''text/plain'' \<longrightarrow>
            content D = take 50000 (text_body response)
            \<and> textContent D = take 50000 (text_body response)
            \<and> length (textContent D) \<le> 50000)
       \<and> (str_includes ct ''text/html'' \<and> \<not> str_includes ct ''text/plain'' \<longrightarrow>
            title D = title (parseHtmlToContent load serialize (text_body response) finalUrl)
            \<and> content D = content (parseHtmlToContent load serialize (text_body response) finalUrl)
            \<and> textContent D
                = textContent (parseHtmlToContent load serialize (text_body response) finalUrl))
       \<and> result_url D = finalUrl"
proof -
  have a: "acquire rl ''fetch'' t1 t2 = Inr (rl1, w)
            \<and> href (cleanUrl href u) = Some h
            \<and> net \<lparr>req_url = cleanUrl href u, req_headers = DEFAULT_FETCH_HEADERS\<rparr> = Inr response0
            \<and> fst (follow300Redirect resolve net response0 (cleanUrl href u)) = Inr response
            \<and> ok response \<longrightarrow>
          fst (fetchUrl href resolve net load serialize rl u t1 t2)
            = Inr (fetchUrl_dispatch load serialize response (cleanUrl href u))"
    using fetchUrl_of_response[of rl t1 t2 rl1 w href u h net response0 resolve response]
    by blast
  have b: "fst (fetchUrl href resolve net load serialize rl u t1 t2) = Inr result \<longrightarrow>
          (\<exists>a v g. \<exists>r0 r :: 'j response.
              acquire rl ''fetch'' t1 t2 = Inr (a, v)
              \<and> href (cleanUrl href u) = Some g
              \<and> net \<lparr>req_url = cleanUrl href u, req_headers = DEFAULT_FETCH_HEADERS\<rparr> = Inr r0
              \<and> fst (follow300Redirect resolve net r0 (cleanUrl href u)) = Inr r
              \<and> ok r
              \<and> result = fetchUrl_dispatch load serialize r (cleanUrl href u))"
    using fetchUrl_success[of href resolve net load serialize rl u t1 t2 result] by blast
  have c: "(\<not> str_includes ct ''text/html'' \<and> \<not> str_includes ct ''text/plain'' \<longrightarrow>
            content D = []
            \<and> textContent D = ''Content type '' @ ct
                 @ '' is not supported. Only HTML and plain text are supported.'')
       \<and> (str_includes ct ''text/plain'' \<longrightarrow>
            content D = take 50000 (text_body response)
            \<and> textContent D = take 50000 (text_body response)
            \<and> length (textContent D) \<le> 50000)
       \<and> (str_includes ct ''text/html'' \<and> \<not> str_includes ct ''text/plain'' \<longrightarrow>
            title D = title (parseHtmlToContent load serialize (text_body response) finalUrl)
            \<and> content D = content (parseHtmlToContent load serialize (text_body response) finalUrl)
            \<and> textContent D
                = textContent (parseHtmlToContent load serialize (text_body response) finalUrl))
       \<and> result_url D = finalUrl"
    unfolding ct_def finalUrl_def D_def
    by (simp add: fetchUrl_dispatch_def Let_def)
  show ?thesis
    apply (rule conjI[OF a])
    apply (rule conjI[OF b])
    apply (rule c)
    done
qed

text \<open>A plain-text file fetched through the whole of \<open>fetchUrl\<close>, a PDF, and the page of
  the script example served as \<open>text/html; charset=utf-8\<close>.\<close>

theorem fetchUrl_content_type_dispatch_witness:
  "fst (fetchUrl (\<lambda>u. Some u) (\<lambda>l b. Some l)
          (\<lambda>rq. Inr \<lparr>status = 200, statusText = ''OK'', url = req_url rq,
                       headers_get = [''content-type'' \<mapsto> ''text/plain''],
                       text_body = ''hello'', json = None :: unit option\<rparr>)
          (\<lambda>h. []) (\<lambda>ns. [])
          (new_ContentService new_RateLimiter 1700000000000)
          ''https://example.org/notes.txt'' 1700000000000 1700000000000)
     = Inr \<lparr>title = ''notes.txt'', content = ''hello'', textContent = ''hello'',
             result_url = ''https://example.org/notes.txt''\<rparr>
   \<and> textContent (fetchUrl_dispatch (\<lambda>h. []) (\<lambda>ns. [])
          \<lparr>status = 200, statusText = ''OK'', url = ''https://example.org/a.pdf'',
           headers_get = [''content-type'' \<mapsto> ''application/pdf''],
           text_body = ''%PDF'', json = None :: unit option\<rparr> ''https://example.org/a.pdf'')
     = ''Content type application/pdf is not supported. Only HTML and plain text are supported.''
   \<and> textContent (fetchUrl_dispatch (\<lambda>h. script_page) (\<lambda>ns. [])
          \<lparr>status = 200, statusText = ''OK'', url = ''https://example.org/page'',
           headers_get = [''content-type'' \<mapsto> ''text/html; charset=utf-8''],
           text_body = ''<script>malicious()</script><p>Hello world is long enough</p>'',
           json = None :: unit option\<rparr> ''https://example.org/page'')
     = ''Hello world is long enough''"
proof -
  let ?pdf = "\<lparr>status = 200, statusText = ''OK'', url = ''https://example.org/a.pdf'',
           headers_get = [''content-type'' \<mapsto> ''application/pdf''],
           text_body = ''%PDF'', json = None :: unit option\<rparr>"
  let ?html = "\<lparr>status = 200, statusText = ''OK'', url = ''https://example.org/page'',
           headers_get = [''content-type'' \<mapsto> ''text/html; charset=utf-8''],
           text_body = ''<script>malicious()</script><p>Hello world is long enough</p>'',
           json = None :: unit option\<rparr>"
  let ?txt = "\<lparr>status = 200, statusText = ''OK'', url = ''https://example.org/notes.txt'',
           headers_get = [''content-type'' \<mapsto> ''text/plain''],
           text_body = ''hello'', json = None :: unit option\<rparr>"
  let ?href = "\<lambda>u::string. Some u"
  let ?resolve = "\<lambda>(l::string) (b::string). Some l"
  let ?net = "\<lambda>rq. Inr \<lparr>status = 200, statusText = ''OK'', url = req_url rq,
                       headers_get = [''content-type'' \<mapsto> ''text/plain''],
                       text_body = ''hello'', json = None :: unit option\<rparr>
                :: failure + unit response"
  let ?rl = "new_ContentService new_RateLimiter 1700000000000"
  let ?rl1 = "\<lparr>tokens = [''fetch'' \<mapsto> 19], maxTokens = [''fetch'' \<mapsto> 20],
               lastRefill = [''fetch'' \<mapsto> 1700000000000],
               refillRate = [''fetch'' \<mapsto> 1 / 3]\<rparr>"
  let ?u = "''https://example.org/notes.txt''"
  have cu: "cleanUrl ?href ?u = ?u" by (simp add: cleanUrl_def)
  have h1: "acquire ?rl ''fetch'' 1700000000000 1700000000000 = Inr (?rl1, None)"
    by (simp add: acquire_def acquire_begin_def new_ContentService_def configure_def
          new_RateLimiter_def get_or_def Let_def)
  have h2: "?href (cleanUrl ?href ?u) = Some ?u" by (simp add: cu)
  have h3: "?net \<lparr>req_url = cleanUrl ?href ?u, req_headers = DEFAULT_FETCH_HEADERS\<rparr> = Inr ?txt"
    by (simp add: cu)
  have h4: "fst (follow300Redirect ?resolve ?net ?txt (cleanUrl ?href ?u)) = Inr ?txt"
    by (simp add: follow300Redirect_def)
  have h5: "ok ?txt" by (simp add: ok_def)
  have imp: "acquire ?rl ''fetch'' 1700000000000 1700000000000 = Inr (?rl1, None)
            \<and> ?href (cleanUrl ?href ?u) = Some ?u
            \<and> ?net \<lparr>req_url = cleanUrl ?href ?u, req_headers = DEFAULT_FETCH_HEADERS\<rparr> = Inr ?txt
            \<and> fst (follow300Redirect ?resolve ?net ?txt (cleanUrl ?href ?u)) = Inr ?txt
            \<and> ok ?txt \<longrightarrow>
          fst (fetchUrl ?href ?resolve ?net (\<lambda>h. []) (\<lambda>ns. []) ?rl ?u 1700000000000 1700000000000)
            = Inr (fetchUrl_dispatch (\<lambda>h. []) (\<lambda>ns. []) ?txt (cleanUrl ?href ?u))"
    by (rule conjunct1[OF fetchUrl_content_type_dispatch
          [where rl = ?rl and ?t1.0 = 1700000000000 and ?t2.0 = 1700000000000 and ?rl1.0 = ?rl1
             and w = None and href = ?href and u = ?u and h = ?u and net = ?net
             and ?response0.0 = ?txt and resolve = ?resolve and response = ?txt
             and load = "\<lambda>h. []" and serialize = "\<lambda>ns. []"]])
  have "fst (fetchUrl ?href ?resolve ?net (\<lambda>h. []) (\<lambda>ns. []) ?rl ?u 1700000000000 1700000000000)
            = Inr (fetchUrl_dispatch (\<lambda>h. []) (\<lambda>ns. []) ?txt (cleanUrl ?href ?u))"
    using imp h1 h2 h3 h4 h5 by blast
  also have "\<dots> = Inr \<lparr>title = ''notes.txt'', content = ''hello'', textContent = ''hello'',
             result_url = ''https://example.org/notes.txt''\<rparr>"
    by (simp add: cu fetchUrl_dispatch_def str_or_def Let_def)
  finally have a: "fst (fetchUrl ?href ?resolve ?net (\<lambda>h. []) (\<lambda>ns. []) ?rl ?u
                          1700000000000 1700000000000)
     = Inr \<lparr>title = ''notes.txt'', content = ''hello'', textContent = ''hello'',
             result_url = ''https://example.org/notes.txt''\<rparr>" .
  have b: "textContent (fetchUrl_dispatch (\<lambda>h. []) (\<lambda>ns. []) ?pdf ''https://example.org/a.pdf'')
     = ''Content type application/pdf is not supported. Only HTML and plain text are supported.''"
    by (simp add: fetchUrl_dispatch_def str_or_def Let_def)
  have "textContent (fetchUrl_dispatch (\<lambda>h. script_page) (\<lambda>ns. []) ?html ''https://example.org/page'')
     = textContent (parseHtmlToContent (\<lambda>h. script_page) (\<lambda>ns. [])
          ''<script>malicious()</script><p>Hello world is long enough</p>'' ''https://example.org/page'')"
    by (simp add: fetchUrl_dispatch_def str_or_def Let_def)
  also have "\<dots> = ''Hello world is long enough''"
    by (simp add: parseHtmlToContent_def script_page_def parse_document_def stripped_def
        remove_comments_def main_content_def
        select_def first_def is_main_def is_content_class_def has_tag_def has_class_def
        attr_contains_def is_chrome_def Let_def clean_text_def NL_def trim_def is_ws_def
        is_nav_word_def upper_of_def truncate_text_def MAX_TEXT_LEN_def)
  finally have c: "textContent (fetchUrl_dispatch (\<lambda>h. script_page) (\<lambda>ns. []) ?html
                     ''https://example.org/page'') = ''Hello world is long enough''" .
  show ?thesis using a b c by simp
qed

text \<open>
  Claim C8 as stated fails for two content types. \<open>Text/HTML\<close> is the type \<open>text/html\<close>
  (media types are not case-sensitive), yet the page is answered with the explanation that
  the type is not supported. \<open>text/html; note=text/plain\<close> is an HTML type, yet the body is
  returned as it is, script included, instead of going through the extractor.
\<close>

theorem fetchUrl_html_not_extracted:
  "fst (fetchUrl (\<lambda>u. Some u) (\<lambda>l b. Some l)
          (\<lambda>rq. Inr \<lparr>status = 200, statusText = ''OK'', url = req_url rq,
                       headers_get = [''content-type'' \<mapsto> ''Text/HTML''],
                       text_body = ''<script>malicious()</script><p>Hello world is long enough</p>'',
                       json = None :: unit option\<rparr>)
          (\<lambda>h. script_page) (\<lambda>ns. [])
          (new_ContentService new_RateLimiter 1700000000000)
          ''https://example.org/page'' 1700000000000 1700000000000)
     = Inr \<lparr>title = ''Non-text content'', content = [],
             textContent = ''Content type Text/HTML is not supported. Only HTML and plain text are supported.'',
             result_url = ''https://example.org/page''\<rparr>
   \<and> fst (fetchUrl (\<lambda>u. Some u) (\<lambda>l b. Some l)
          (\<lambda>rq. Inr \<lparr>status = 200, statusText = ''OK'', url = req_url rq,
                       headers_get = [''content-type'' \<mapsto> ''text/html; note=text/plain''],
                       text_body = ''<script>malicious()</script><p>Hello world is long enough</p>'',
                       json = None :: unit option\<rparr>)
          (\<lambda>h. script_page) (\<lambda>ns. [])
          (new_ContentService new_RateLimiter 1700000000000)
          ''https://example.org/page'' 1700000000000 1700000000000)
     = Inr \<lparr>title = ''page'',
             content = ''<script>malicious()</script><p>Hello world is long enough</p>'',
             textContent = ''<script>malicious()</script><p>Hello world is long enough</p>'',
             result_url = ''https://example.org/page''\<rparr>
   \<and> str_includes ''text/html; note=text/plain'' ''text/html''"
  by (simp add: fetchUrl_def acquire_def acquire_begin_def new_ContentService_def configure_def
        new_RateLimiter_def get_or_def cleanUrl_def fetchWithTimeout_def follow300Redirect_def
        ok_def fetchUrl_dispatch_def str_or_def Let_def)

end
